theory Spec2Isabelle
  imports Main "HOL-Library.Sublist"
begin

section \<open>Go library calls used by the migrator\<close>

text \<open>
  Go strings are modelled as \<^typ>\<open>string\<close>. A character stands for one code point in the
  range U+0000 .. U+00FF; texts with code points outside that range are outside the model.
  This matters only for \<open>strings.TrimSpace\<close>, which works on code points.
\<close>

text \<open>\<open>unicode.IsSpace\<close> on the Latin-1 range:
  tab, line feed, vertical tab, form feed, carriage return, space, U+0085 (NEL), U+00A0 (NBSP).\<close>

definition isSpace :: "char \<Rightarrow> bool" where
  "isSpace c =
     (c = CHR 0x09 \<or> c = CHR 0x0A \<or> c = CHR 0x0B \<or> c = CHR 0x0C \<or> c = CHR 0x0D \<or>
      c = CHR 0x20 \<or> c = CHR 0x85 \<or> c = CHR 0xA0)"

text \<open>\<open>strings.TrimSpace(s)\<close>: \<open>s\<close> without its leading and trailing white space.\<close>

definition TrimSpace :: "string \<Rightarrow> string" where
  "TrimSpace s = rev (dropWhile isSpace (rev (dropWhile isSpace s)))"

text \<open>\<open>strings.Split(s, ",")\<close>: the fields between the commas; one more field than there
  are commas, so the empty text gives one empty field.\<close>

fun Split :: "string \<Rightarrow> string list" where
  "Split [] = [[]]"
| "Split (c # cs) =
     (if c = CHR '','' then [] # Split cs
      else (case Split cs of [] \<Rightarrow> [[c]] | w # ws \<Rightarrow> (c # w) # ws))"

text \<open>\<open>strings.Replace(s, old, new, 1)\<close>: the first occurrence of \<open>old\<close> in \<open>s\<close>
  replaced by \<open>new\<close>; \<open>s\<close> itself when \<open>old\<close> does not occur.\<close>

fun Replace1 :: "string \<Rightarrow> string \<Rightarrow> string \<Rightarrow> string" where
  "Replace1 [] old new = (if old = [] then new else [])"
| "Replace1 (c # cs) old new =
     (if prefix old (c # cs) then new @ drop (length old) (c # cs)
      else c # Replace1 cs old new)"

text \<open>\<open>strings.ReplaceAll(s, "/", "_")\<close>.\<close>

definition ReplaceAll_slash :: "string \<Rightarrow> string" where
  "ReplaceAll_slash s = map (\<lambda>c. if c = CHR ''/'' then CHR ''_'' else c) s"

text \<open>The verb \<open>%d\<close> of \<open>fmt.Sprintf\<close> on a length: decimal digits.\<close>

definition digit :: "nat \<Rightarrow> char" where
  "digit d = char_of (48 + d)"

fun Itoa :: "nat \<Rightarrow> string" where
  "Itoa n = (if n < 10 then [digit n] else Itoa (n div 10) @ [digit (n mod 10)])"

declare Itoa.simps [simp del]

text \<open>\<open>filepath.Join(".", "clones", x)\<close> on a Unix path, for an \<open>x\<close> without a slash (the
  caller has replaced every slash): empty elements are skipped and the joined path is cleaned.\<close>

definition Join_clones :: "string \<Rightarrow> string" where
  "Join_clones x =
     (if x = [] \<or> x = ''.'' then ''clones''
      else if x = ''..'' then ''.''
      else ''clones/'' @ x)"

text \<open>\<open>filepath.Dir\<close> on the three shapes \<open>Join_clones\<close> returns.\<close>

definition Dir :: "string \<Rightarrow> string" where
  "Dir p = (if prefix ''clones/'' p then ''clones'' else ''.'')"

section \<open>The outside world\<close>

text \<open>An HTTP request as the program builds it, and the response it reads.\<close>

record request =
  Method :: string
  URL :: string
  Header :: "(string \<times> string) list"
  BasicAuth :: "(string \<times> string) option"
  Payload :: "(string \<times> string) list"

record response =
  StatusCode :: nat
  Status :: string
  Body :: string

text \<open>
  What the program cannot decide itself is read from an environment: whether a request can
  be built and what the server answers, what the JSON decoder finds in a body, the name a
  temporary directory gets, the combined output and error of a child process, the directory
  git creates for a clone that is given none (git names it after the URL), and the error of
  each file-system call. An error is its message (\<open>err.Error()\<close>); \<open>None\<close> is \<open>nil\<close>.
\<close>

record env =
  NewRequest :: "string \<Rightarrow> string \<Rightarrow> string option"
  Do :: "request \<Rightarrow> string + response"
  Unmarshal_full_names :: "string \<Rightarrow> string list"
  Unmarshal_remoteUrl :: "string \<Rightarrow> string"
  TempDir :: "string \<Rightarrow> string + string"
  CombinedOutput :: "string list \<Rightarrow> string \<times> string option"
  CloneDir :: "string list \<Rightarrow> string"
  RemoveAll :: "string \<Rightarrow> string option"
  MkdirAll :: "string \<Rightarrow> string option"
  Rename :: "string \<Rightarrow> string \<Rightarrow> string option"

text \<open>
  What the program changes: the log (the messages in the order they were appended), the
  directories that exist, and, as a record of what was asked of the outside, the child
  processes that were run, each with its argument vector.
\<close>

datatype call = Exec "string list"

record state =
  logs :: "string list"
  dirs :: "string set"
  calls :: "call list"

section \<open>new.go\<close>

text \<open>\<open>getGitHubRepos\<close> (new.go, lines 23-59). A nil slice and an empty one are both \<open>[]\<close>.\<close>

definition getGitHubRepos :: "env \<Rightarrow> string \<Rightarrow> string \<Rightarrow> string list" where
  "getGitHubRepos e user token =
     (case NewRequest e ''GET'' ''https://api.github.com/user/repos'' of
        Some err \<Rightarrow> []
      | None \<Rightarrow>
          (case Do e \<lparr>Method = ''GET'', URL = ''https://api.github.com/user/repos'',
                      Header = [(''Authorization'', ''token '' @ token),
                                (''Accept'', ''application/vnd.github.v3+json'')],
                      BasicAuth = None, Payload = []\<rparr> of
             Inl err \<Rightarrow> []
           | Inr resp \<Rightarrow>
               if StatusCode resp \<noteq> 200 then []
               else Unmarshal_full_names e (Body resp)))"

text \<open>The request \<open>createAzureRepo\<close> sends (new.go, lines 64-79): the address, and a POST with
  the name as JSON payload, basic authentication with an empty user name and the token.\<close>

definition createRepoURL :: "string \<Rightarrow> string \<Rightarrow> string" where
  "createRepoURL org project = org @ ''/'' @ project @ ''/_apis/git/repositories?api-version=7.0''"

definition createRepoRequest :: "string \<Rightarrow> string \<Rightarrow> string \<Rightarrow> string \<Rightarrow> request" where
  "createRepoRequest repoName org project token =
     \<lparr>Method = ''POST'', URL = createRepoURL org project,
      Header = [(''Content-Type'', ''application/json'')],
      BasicAuth = Some ([], token), Payload = [(''name'', repoName)]\<rparr>"

text \<open>\<open>createAzureRepo\<close> (new.go, lines 62-103): the error, or the remote URL with the
  token put in front of the host.\<close>

definition createAzureRepo :: "env \<Rightarrow> string \<Rightarrow> string \<Rightarrow> string \<Rightarrow> string \<Rightarrow> string + string" where
  "createAzureRepo e repoName org project token =
     (case NewRequest e ''POST'' (createRepoURL org project) of
        Some err \<Rightarrow> Inl err
      | None \<Rightarrow>
          (case Do e (createRepoRequest repoName org project token) of
             Inl err \<Rightarrow> Inl err
           | Inr resp \<Rightarrow>
               if StatusCode resp \<noteq> 201 then Inl (''Azure API error: '' @ Status resp)
               else Inr (Replace1 (Unmarshal_remoteUrl e (Body resp)) ''dev.azure.com''
                           (token @ ''@dev.azure.com''))))"

text \<open>\<open>appendLog\<close> (new.go, lines 120-127). The time stamp in front of each line and the
  line break after it are left out: the log is the list of the messages.\<close>

definition appendLog :: "string \<Rightarrow> state \<Rightarrow> state" where
  "appendLog msg s = s\<lparr>logs := logs s @ [msg]\<rparr>"

text \<open>A child process: \<open>exec.Command(argv...).CombinedOutput()\<close>.\<close>

definition exec :: "env \<Rightarrow> string list \<Rightarrow> state \<Rightarrow> (string \<times> string option) \<times> state" where
  "exec e argv s = (CombinedOutput e argv, s\<lparr>calls := calls s @ [Exec argv]\<rparr>)"

text \<open>\<open>ioutil.TempDir("", pattern)\<close> creates the directory it names.\<close>

definition ioutil_TempDir :: "env \<Rightarrow> string \<Rightarrow> state \<Rightarrow> (string + string) \<times> state" where
  "ioutil_TempDir e pattern s =
     (case TempDir e pattern of
        Inl err \<Rightarrow> (Inl err, s)
      | Inr path \<Rightarrow> (Inr path, s\<lparr>dirs := insert path (dirs s)\<rparr>))"

text \<open>\<open>os.RemoveAll(path)\<close>: when it returns nil the path is gone; when it returns an error
  something under the path could not be removed, and the path is still there.\<close>

definition os_RemoveAll :: "env \<Rightarrow> string \<Rightarrow> state \<Rightarrow> string option \<times> state" where
  "os_RemoveAll e path s =
     (case RemoveAll e path of
        None \<Rightarrow> (None, s\<lparr>dirs := dirs s - {path}\<rparr>)
      | Some err \<Rightarrow> (Some err, s))"

definition os_MkdirAll :: "env \<Rightarrow> string \<Rightarrow> state \<Rightarrow> string option \<times> state" where
  "os_MkdirAll e path s =
     (case MkdirAll e path of
        None \<Rightarrow> (None, s\<lparr>dirs := insert path (dirs s)\<rparr>)
      | Some err \<Rightarrow> (Some err, s))"

definition os_Rename :: "env \<Rightarrow> string \<Rightarrow> string \<Rightarrow> state \<Rightarrow> string option \<times> state" where
  "os_Rename e old new s =
     (case Rename e old new of
        None \<Rightarrow> (None, s\<lparr>dirs := insert new (dirs s - {old})\<rparr>)
      | Some err \<Rightarrow> (Some err, s))"

text \<open>The form of new.go, read when the button is pressed.\<close>

record form =
  githubTokenEntry :: string
  azureTokenEntry :: string
  azureOrgEntry :: string
  azureProjectEntry :: string
  dontSaveCheckbox :: bool

text \<open>What follows the message of success (new.go, lines 228-248): the clone is removed, or
  moved under \<open>./clones\<close>.\<close>

definition keep_or_remove :: "env \<Rightarrow> bool \<Rightarrow> string \<Rightarrow> string \<Rightarrow> state \<Rightarrow> state" where
  "keep_or_remove e dontSave repo tempDir s =
     (if dontSave then
        (case os_RemoveAll e tempDir s of
           (Some err, s') \<Rightarrow> appendLog (''Error removing local clone for '' @ repo @ '': '' @ err) s'
         | (None, s') \<Rightarrow> appendLog (''Removed local clone for '' @ repo @ ''.'') s')
      else
        (let destDir = Join_clones (ReplaceAll_slash repo) in
         case os_MkdirAll e (Dir destDir) s of
           (Some err, s') \<Rightarrow>
             appendLog (''Error moving clone for '' @ repo @ '' to '' @ destDir @ '': '' @ err) s'
         | (None, s') \<Rightarrow>
             (case os_Rename e tempDir destDir s' of
                (Some err, s'') \<Rightarrow>
                  appendLog (''Error moving clone for '' @ repo @ '' to '' @ destDir @ '': '' @ err) s''
              | (None, s'') \<Rightarrow>
                  appendLog (''Local clone for '' @ repo @ '' saved to '' @ destDir @ ''.'') s'')))"

text \<open>The four child processes of one turn (new.go, lines 194, 203, 211, 219).\<close>

definition cloneCmd :: "string \<Rightarrow> string \<Rightarrow> string list" where
  "cloneCmd githubRepoURL tempDir = [''git'', ''clone'', ''--bare'', githubRepoURL, tempDir]"

definition remoteAddCmd :: "string \<Rightarrow> string \<Rightarrow> string list" where
  "remoteAddCmd tempDir azureRepoURL = [''git'', ''-C'', tempDir, ''remote'', ''add'', ''azure'', azureRepoURL]"

definition pushAllCmd :: "string \<Rightarrow> string list" where
  "pushAllCmd tempDir = [''git'', ''-C'', tempDir, ''push'', ''azure'', ''--all'']"

definition pushTagsCmd :: "string \<Rightarrow> string list" where
  "pushTagsCmd tempDir = [''git'', ''-C'', tempDir, ''push'', ''azure'', ''--tags'']"

text \<open>The clone URL with the token in it (new.go, line 183).\<close>

definition githubRepoURL :: "string \<Rightarrow> string \<Rightarrow> string" where
  "githubRepoURL githubToken repo = ''https://'' @ githubToken @ ''@github.com/'' @ repo @ ''.git''"

text \<open>One turn of the loop (new.go, lines 171-249), for one repository. Every
  \<open>continue\<close> of the source is a branch that returns the state reached.\<close>

definition migrate_one :: "env \<Rightarrow> string \<Rightarrow> string \<Rightarrow> string \<Rightarrow> string \<Rightarrow> bool \<Rightarrow> string \<Rightarrow> state \<Rightarrow> state" where
  "migrate_one e githubToken azureToken azureOrg azureProject dontSave repo s0 =
     (let s1 = appendLog (''Migrating repository: '' @ repo) s0 in
      case createAzureRepo e repo azureOrg azureProject azureToken of
        Inl err \<Rightarrow> appendLog (''Error creating Azure repo for '' @ repo @ '': '' @ err) s1
      | Inr azureRepoURL \<Rightarrow>
          (let s2 = appendLog (''Created Azure repo: '' @ azureRepoURL) s1;
               url = githubRepoURL githubToken repo in
           case ioutil_TempDir e (ReplaceAll_slash repo) s2 of
             (Inl err, s3) \<Rightarrow>
               appendLog (''Error creating temporary directory for '' @ repo @ '': '' @ err) s3
           | (Inr tempDir, s3) \<Rightarrow>
               (let s4 = appendLog (''Cloning repository into '' @ tempDir) s3 in
                case exec e (cloneCmd url tempDir) s4 of
                  ((output, Some err), s5) \<Rightarrow>
                    snd (os_RemoveAll e tempDir
                          (appendLog (''Error cloning '' @ repo @ '': '' @ err @ '', output: '' @ output) s5))
                | ((output, None), s5) \<Rightarrow>
                    (case exec e (remoteAddCmd tempDir azureRepoURL) s5 of
                       ((output, Some err), s6) \<Rightarrow>
                         snd (os_RemoveAll e tempDir
                               (appendLog (''Error adding Azure remote for '' @ repo @ '': '' @ err
                                            @ '', output: '' @ output) s6))
                     | ((output, None), s6) \<Rightarrow>
                         (case exec e (pushAllCmd tempDir) s6 of
                            ((output, Some err), s7) \<Rightarrow>
                              snd (os_RemoveAll e tempDir
                                    (appendLog (''Error pushing branches for '' @ repo @ '': '' @ err
                                                 @ '', output: '' @ output) s7))
                          | ((output, None), s7) \<Rightarrow>
                              (case exec e (pushTagsCmd tempDir) s7 of
                                 ((output, Some err), s8) \<Rightarrow>
                                   snd (os_RemoveAll e tempDir
                                         (appendLog (''Error pushing tags for '' @ repo @ '': '' @ err
                                                      @ '', output: '' @ output) s8))
                               | ((output, None), s8) \<Rightarrow>
                                   keep_or_remove e dontSave repo tempDir
                                     (appendLog (''Successfully migrated '' @ repo @ '' to Azure.'') s8)))))))"

text \<open>The loop over the repositories. Turn \<open>i\<close> meets the environment \<open>es i\<close>: the outside may
  answer the same call differently on a later turn.\<close>

fun migrate_loop :: "(nat \<Rightarrow> env) \<Rightarrow> string \<Rightarrow> string \<Rightarrow> string \<Rightarrow> string \<Rightarrow> bool \<Rightarrow> nat \<Rightarrow> string list \<Rightarrow> state \<Rightarrow> state" where
  "migrate_loop es githubToken azureToken azureOrg azureProject dontSave i [] s = s"
| "migrate_loop es githubToken azureToken azureOrg azureProject dontSave i (repo # repos) s =
     migrate_loop es githubToken azureToken azureOrg azureProject dontSave (Suc i) repos
       (migrate_one (es i) githubToken azureToken azureOrg azureProject dontSave repo s)"

text \<open>The goroutine the Migrate button starts (new.go, lines 148-252). \<open>e0\<close> answers the
  listing of the repositories.\<close>

definition migrate :: "form \<Rightarrow> env \<Rightarrow> (nat \<Rightarrow> env) \<Rightarrow> state \<Rightarrow> state" where
  "migrate f e0 es s0 =
     (let s1 = appendLog ''Starting migration...'' s0;
          githubToken = TrimSpace (githubTokenEntry f);
          azureToken = TrimSpace (azureTokenEntry f);
          azureOrg = TrimSpace (azureOrgEntry f);
          azureProject = TrimSpace (azureProjectEntry f) in
      if githubToken = [] \<or> azureToken = [] \<or> azureOrg = [] \<or> azureProject = [] then
        appendLog ''Error: All fields are required.'' s1
      else
        (let s2 = appendLog ''Fetching repositories from GitHub...'' s1;
             repos = getGitHubRepos e0 [] githubToken in
         if repos = [] then
           appendLog ''No repositories found or error occurred while fetching repos.'' s2
         else
           (let s3 = appendLog (''Found '' @ Itoa (length repos) @ '' repositories.'') s2;
                s4 = migrate_loop es githubToken azureToken azureOrg azureProject
                       (dontSaveCheckbox f) 0 repos s3 in
            appendLog ''Migration completed.'' s4)))"

section \<open>main.go\<close>

text \<open>\<open>logMsg\<close> (main.go, lines 16-18): the message goes to the end of the label's text.\<close>

definition logMsg :: "string \<Rightarrow> state \<Rightarrow> state" where
  "logMsg msg s = s\<lparr>logs := logs s @ [msg]\<rparr>"

text \<open>\<open>cmd.Run()\<close>: the child process is run and only its error is read.\<close>

definition Run :: "env \<Rightarrow> string list \<Rightarrow> state \<Rightarrow> string option \<times> state" where
  "Run e argv s = (snd (CombinedOutput e argv), s\<lparr>calls := calls s @ [Exec argv]\<rparr>)"

text \<open>The directory the clone is expected in (main.go, line 32).\<close>

definition dirName :: "string \<Rightarrow> string" where
  "dirName repoName = repoName @ ''.git''"

text \<open>The three child processes of \<open>migrateRepo\<close> (main.go, lines 23, 33, 40).\<close>

definition mirrorCloneCmd :: "string \<Rightarrow> string \<Rightarrow> string \<Rightarrow> string list" where
  "mirrorCloneCmd gitPat gitHubOrg repoName =
     [''git'', ''clone'', ''--mirror'',
      ''https://'' @ gitPat @ ''@github.com/'' @ gitHubOrg @ ''/'' @ repoName @ ''.git'']"

definition remoteAddAdoCmd :: "string \<Rightarrow> string \<Rightarrow> string \<Rightarrow> string \<Rightarrow> string list" where
  "remoteAddAdoCmd adoPat adoOrg adoProject repoName =
     [''git'', ''-C'', dirName repoName, ''remote'', ''add'', ''azure-devops'',
      ''https://'' @ adoPat @ ''@dev.azure.com/'' @ adoOrg @ ''/'' @ adoProject @ ''/_git/'' @ repoName]"

definition pushMirrorCmd :: "string \<Rightarrow> string list" where
  "pushMirrorCmd repoName = [''git'', ''-C'', dirName repoName, ''push'', ''--mirror'', ''azure-devops'']"

text \<open>\<open>migrateRepo\<close> (main.go, lines 15-57). The clone command names no directory, so a
  clone that succeeds leaves the directory git chooses (\<open>CloneDir\<close>); the commands after it and
  the removal work on \<open>dirName repoName\<close>. Every \<open>return\<close> of the source is a branch that
  returns the state reached.\<close>

definition migrateRepo :: "env \<Rightarrow> string \<Rightarrow> string \<Rightarrow> string \<Rightarrow> string \<Rightarrow> string \<Rightarrow> string \<Rightarrow> bool \<Rightarrow> state \<Rightarrow> state" where
  "migrateRepo e gitHubOrg adoOrg adoProject repoName gitPat adoPat deleteAfter s0 =
     (let s1 = logMsg (''Migrating repository: '' @ repoName) s0 in
      case Run e (mirrorCloneCmd gitPat gitHubOrg repoName) s1 of
        (Some err, s2) \<Rightarrow> logMsg (''Failed to clone repository: '' @ err) s2
      | (None, s2) \<Rightarrow>
          (let s3 = s2\<lparr>dirs := insert (CloneDir e (mirrorCloneCmd gitPat gitHubOrg repoName)) (dirs s2)\<rparr> in
           case Run e (remoteAddAdoCmd adoPat adoOrg adoProject repoName) s3 of
             (Some err, s4) \<Rightarrow> logMsg (''Failed to add Azure DevOps remote: '' @ err) s4
           | (None, s4) \<Rightarrow>
               (case Run e (pushMirrorCmd repoName) s4 of
                  (Some err, s5) \<Rightarrow> logMsg (''Failed to push repository: '' @ err) s5
                | (None, s5) \<Rightarrow>
                    if deleteAfter then
                      (case os_RemoveAll e (dirName repoName) s5 of
                         (Some err, s6) \<Rightarrow> logMsg (''Failed to delete repository: '' @ err) s6
                       | (None, s6) \<Rightarrow>
                           logMsg (''Successfully migrated and deleted local repository: '' @ repoName) s6)
                    else logMsg (''Successfully migrated repository: '' @ repoName) s5)))"

text \<open>The form of main.go, read when the button is pressed.\<close>

record mainForm =
  gitHubOrg_Text :: string
  adoOrg_Text :: string
  adoProject_Text :: string
  repoList_Text :: string
  gitPat_Text :: string
  adoPat_Text :: string
  deleteAfter_Checked :: bool

text \<open>The repository names the button's handler hands to \<open>migrateRepo\<close> (main.go, lines
  75-78): the fields of the text between its commas, each trimmed.\<close>

definition workList :: "mainForm \<Rightarrow> string list" where
  "workList f = map TrimSpace (Split (repoList_Text f))"

text \<open>The goroutines the handler starts, one for each name of the work list, in that order;
  goroutine \<open>i\<close> meets the environment \<open>es i\<close>.\<close>

definition goroutines :: "mainForm \<Rightarrow> (nat \<Rightarrow> env) \<Rightarrow> (state \<Rightarrow> state) list" where
  "goroutines f es =
     map (\<lambda>(i, repo).
            migrateRepo (es i) (TrimSpace (gitHubOrg_Text f)) (TrimSpace (adoOrg_Text f))
              (TrimSpace (adoProject_Text f)) repo (TrimSpace (gitPat_Text f))
              (TrimSpace (adoPat_Text f)) (deleteAfter_Checked f))
         (enumerate 0 (workList f))"

text \<open>The messages a goroutine appends, in its own order.\<close>

definition emitted :: "(state \<Rightarrow> state) \<Rightarrow> string list" where
  "emitted g = logs (g \<lparr>logs = [], dirs = {}, calls = []\<rparr>)"

text \<open>
  The goroutines run concurrently; nothing orders them and nothing locks the label.
  \<open>logMsg\<close> reads the label's text and then sets the label to that text with the message
  appended (main.go, line 17): two steps, and other goroutines may run between them. A goroutine
  is here the text it has read and not yet written back, if any, and the messages it still has
  to append. A schedule names, step by step, the goroutine that takes its next step: the read
  of the label, or the write of what it read with its message appended. (A read that sees a
  half-written text, which the unlocked access also allows, is outside the model.)
\<close>

fun run_schedule :: "nat list \<Rightarrow> (string list option \<times> string list) list \<Rightarrow> string list \<Rightarrow> string list" where
  "run_schedule [] gs label = label"
| "run_schedule (i # sched) gs label =
     (if i < length gs then
        (case gs ! i of
           (held, []) \<Rightarrow> run_schedule sched gs label
         | (None, m # ms) \<Rightarrow> run_schedule sched (gs[i := (Some label, m # ms)]) label
         | (Some text, m # ms) \<Rightarrow> run_schedule sched (gs[i := (None, ms)]) (text @ [m]))
      else run_schedule sched gs label)"

definition label_after :: "nat list \<Rightarrow> mainForm \<Rightarrow> (nat \<Rightarrow> env) \<Rightarrow> string list" where
  "label_after sched f es =
     run_schedule sched (map (\<lambda>g. (None, emitted g)) (goroutines f es)) []"

section \<open>Observations, the specification's wording, and sample inputs\<close>

text \<open>What one run added to the log and to the calls.\<close>

definition new_logs :: "state \<Rightarrow> state \<Rightarrow> string list" where
  "new_logs s s' = drop (length (logs s)) (logs s')"

definition new_calls :: "state \<Rightarrow> state \<Rightarrow> call list" where
  "new_calls s s' = drop (length (calls s)) (calls s')"

text \<open>\<open>strings.Join(ws, ",")\<close>, to say what the fields of \<open>Split\<close> are.\<close>

fun Join :: "string list \<Rightarrow> string" where
  "Join [] = []"
| "Join [w] = w"
| "Join (w # ws) = w @ CHR '','' # Join ws"

text \<open>The work list as the specification words it: the fields trimmed, the empty ones
  dropped, and of equal entries only the first kept.\<close>

fun dedup_from :: "string list \<Rightarrow> string list \<Rightarrow> string list" where
  "dedup_from seen [] = []"
| "dedup_from seen (x # xs) =
     (if x \<in> set seen then dedup_from seen xs else x # dedup_from (x # seen) xs)"

definition spec_workList :: "string \<Rightarrow> string list" where
  "spec_workList text = dedup_from [] (filter (\<lambda>w. w \<noteq> []) (map TrimSpace (Split text)))"

text \<open>Sample forms of main.go: a list with an empty field between two equal names, and a
  list that names one repository twice.\<close>

definition gaps_form :: mainForm where
  "gaps_form = \<lparr>gitHubOrg_Text = ''org'', adoOrg_Text = ''o'', adoProject_Text = ''p'',
     repoList_Text = ''a, ,a'', gitPat_Text = ''G'', adoPat_Text = ''A'', deleteAfter_Checked = False\<rparr>"


text \<open>In the sample environments git names a clone after the last component of its URL, as
  it does for a mirror clone of a URL that ends in \<open><name>.git\<close>.\<close>

definition last_component :: "string \<Rightarrow> string" where
  "last_component url = rev (takeWhile (\<lambda>c. c \<noteq> CHR ''/'') (rev url))"

text \<open>A sample environment in which the destination answers every request with
  \<open>409 Conflict\<close>, as it does for a name that is taken.\<close>

definition conflict_env :: env where
  "conflict_env =
     \<lparr>NewRequest = (\<lambda>m u. None),
      Do = (\<lambda>r. Inr \<lparr>StatusCode = 409, Status = ''409 Conflict'', Body = []\<rparr>),
      Unmarshal_full_names = (\<lambda>b. []),
      Unmarshal_remoteUrl = (\<lambda>b. []),
      TempDir = (\<lambda>p. Inr (''/tmp/'' @ p @ ''1'')),
      CombinedOutput = (\<lambda>argv. ([], None)),
      CloneDir = (\<lambda>argv. last_component (last argv)),
      RemoveAll = (\<lambda>p. None),
      MkdirAll = (\<lambda>p. None),
      Rename = (\<lambda>p q. None)\<rparr>"

text \<open>The terminal records of new.go's log. A turn reports its repository as migrated with the
  message of line 226, and as failed with one of the six error messages of lines 176, 188, 196,
  205, 213 and 221; the messages about the local clone that follow a success (lines 232-246) are
  not outcomes of the migration.\<close>

definition succeeded_record :: "string \<Rightarrow> string \<Rightarrow> bool" where
  "succeeded_record repo msg = (msg = ''Successfully migrated '' @ repo @ '' to Azure.'')"

definition failed_record :: "string \<Rightarrow> string \<Rightarrow> bool" where
  "failed_record repo msg =
     (prefix (''Error creating Azure repo for '' @ repo @ '': '') msg \<or>
      prefix (''Error creating temporary directory for '' @ repo @ '': '') msg \<or>
      prefix (''Error cloning '' @ repo @ '': '') msg \<or>
      prefix (''Error adding Azure remote for '' @ repo @ '': '') msg \<or>
      prefix (''Error pushing branches for '' @ repo @ '': '') msg \<or>
      prefix (''Error pushing tags for '' @ repo @ '': '') msg)"

definition outcome_for :: "string \<Rightarrow> string \<Rightarrow> bool" where
  "outcome_for repo msg = (succeeded_record repo msg \<or> failed_record repo msg)"

definition terminal :: "string \<Rightarrow> bool" where
  "terminal msg =
     (prefix ''Successfully migrated '' msg \<or> prefix ''Error creating '' msg \<or>
      prefix ''Error cloning '' msg \<or> prefix ''Error adding '' msg \<or>
      prefix ''Error pushing '' msg)"

text \<open>The terminal records of main.go's label: the last message of \<open>migrateRepo\<close>, which is
  one of the four failures (lines 28, 36, 43, 50) or one of the two successes (lines 53, 55).\<close>

definition terminal_main :: "string \<Rightarrow> bool" where
  "terminal_main msg = (prefix ''Failed to '' msg \<or> prefix ''Successfully migrated '' msg)"

text \<open>The argument vectors of the child processes that were run.\<close>

fun execs :: "call list \<Rightarrow> string list list" where
  "execs [] = []"
| "execs (Exec argv # cs) = argv # execs cs"

text \<open>A list of commands run so that each is run only after the one before has returned no
  error: the commands up to and including the first that fails.\<close>

fun gated :: "env \<Rightarrow> string list list \<Rightarrow> string list list" where
  "gated e [] = []"
| "gated e (argv # rest) =
     argv # (if snd (CombinedOutput e argv) = None then gated e rest else [])"

text \<open>The repositories a log shows as started: the loop body of new.go begins with the message
  \<open>Migrating repository: <name>\<close> (line 172), so each such message is one attempt at the
  repository it names.\<close>

definition started :: "string list \<Rightarrow> string list" where
  "started msgs =
     map (drop (length ''Migrating repository: ''))
       (filter (prefix ''Migrating repository: '') msgs)"

text \<open>The transfer as the specification words it: a mirror clone, then the registration of the
  remote, then a push of all branches, then a push of all tags.\<close>

definition is_mirror_clone :: "string list \<Rightarrow> bool" where
  "is_mirror_clone argv = (take 3 argv = [''git'', ''clone'', ''--mirror''])"

definition is_remote_add :: "string list \<Rightarrow> bool" where
  "is_remote_add argv = (take 2 (drop 3 argv) = [''remote'', ''add''])"

definition is_push_branches :: "string list \<Rightarrow> bool" where
  "is_push_branches argv = (take 1 (drop 3 argv) = [''push''] \<and> ''--all'' \<in> set (drop 4 argv))"

definition is_push_tags :: "string list \<Rightarrow> bool" where
  "is_push_tags argv = (take 1 (drop 3 argv) = [''push''] \<and> ''--tags'' \<in> set (drop 4 argv))"

fun spec_transfer :: "string list list \<Rightarrow> bool" where
  "spec_transfer [c1, c2, c3, c4] =
     (is_mirror_clone c1 \<and> is_remote_add c2 \<and> is_push_branches c3 \<and> is_push_tags c4)"
| "spec_transfer cs = False"

text \<open>The state before anything has run.\<close>

definition start :: state where
  "start = \<lparr>logs = [], dirs = {}, calls = []\<rparr>"

text \<open>Sample environments. In \<open>ok_env\<close> everything succeeds: the destination answers
  201 Created with a remote URL on \<open>dev.azure.com\<close>. \<open>push_fail_env\<close> differs in that every
  push fails, \<open>rm_fail_env\<close> in that no directory can be removed.\<close>

definition ok_env :: env where
  "ok_env =
     \<lparr>NewRequest = (\<lambda>m u. None),
      Do = (\<lambda>r. Inr \<lparr>StatusCode = (if Method r = ''POST'' then 201 else 200),
                       Status = (if Method r = ''POST'' then ''201 Created'' else ''200 OK''),
                       Body = []\<rparr>),
      Unmarshal_full_names = (\<lambda>b. [''org/a'', ''org/b'']),
      Unmarshal_remoteUrl = (\<lambda>b. ''https://dev.azure.com/o/p/_git/a''),
      TempDir = (\<lambda>p. Inr (''/tmp/'' @ p @ ''042'')),
      CombinedOutput = (\<lambda>argv. ([], None)),
      CloneDir = (\<lambda>argv. last_component (last argv)),
      RemoveAll = (\<lambda>p. None),
      MkdirAll = (\<lambda>p. None),
      Rename = (\<lambda>p q. None)\<rparr>"

definition push_fail_env :: env where
  "push_fail_env =
     ok_env\<lparr>CombinedOutput :=
              (\<lambda>argv. if ''push'' \<in> set argv then (''rejected'', Some ''exit status 1'')
                      else ([], None))\<rparr>"

definition rm_fail_env :: env where
  "rm_fail_env = ok_env\<lparr>RemoveAll := (\<lambda>p. Some ''permission denied'')\<rparr>"

text \<open>A sample form of main.go that lists two repositories.\<close>

definition ab_form :: mainForm where
  "ab_form = \<lparr>gitHubOrg_Text = ''org'', adoOrg_Text = ''o'', adoProject_Text = ''p'',
     repoList_Text = ''a,b'', gitPat_Text = ''G'', adoPat_Text = ''A'', deleteAfter_Checked = False\<rparr>"

text \<open>A sample form of new.go, with white space around the GitHub token.\<close>

definition ok_form :: form where
  "ok_form = \<lparr>githubTokenEntry = '' GH '', azureTokenEntry = ''AZ'',
     azureOrgEntry = ''https://dev.azure.com/o'', azureProjectEntry = ''p'',
     dontSaveCheckbox = True\<rparr>"

section \<open>Auxiliary lemmas\<close>

lemma Replace1_decomp:
  "sublist old s \<Longrightarrow> \<exists>pre post. s = pre @ old @ post \<and> Replace1 s old new = pre @ new @ post"
proof (induction s)
  case Nil
  then show ?case by simp
next
  case (Cons c cs)
  show ?case
  proof (cases "prefix old (c # cs)")
    case True
    then obtain post where eq: "c # cs = old @ post" by (auto simp: prefix_def)
    have "Replace1 (c # cs) old new = new @ drop (length old) (c # cs)"
      using True by simp
    also have "drop (length old) (c # cs) = post" by (simp add: eq)
    finally have "c # cs = [] @ old @ post \<and> Replace1 (c # cs) old new = [] @ new @ post"
      using eq by simp
    then show ?thesis by blast
  next
    case False
    with Cons.prems have "sublist old cs" by (simp add: sublist_Cons_right)
    from Cons.IH [OF this] obtain pre post where "cs = pre @ old @ post" "Replace1 cs old new = pre @ new @ post"
      by blast
    with False have "c # cs = (c # pre) @ old @ post \<and>
        Replace1 (c # cs) old new = (c # pre) @ new @ post"
      by simp
    then show ?thesis by blast
  qed
qed

lemma Replace1_shows_new: "sublist old s \<Longrightarrow> sublist new (Replace1 s old new)"
  using Replace1_decomp [of old s new] by (auto simp: sublist_def)

lemma Split_not_Nil [simp]: "Split s \<noteq> []"
  by (induction s) (auto split: list.splits)

lemma length_Split: "length (Split s) = Suc (count_list s CHR '','')"
  by (induction s) (auto split: list.splits)

lemma Split_no_comma: "w \<in> set (Split s) \<Longrightarrow> CHR '','' \<notin> set w"
  by (induction s arbitrary: w) (auto split: list.splits if_splits)

lemma Join_Cons_nonempty: "ws \<noteq> [] \<Longrightarrow> Join (w # ws) = w @ CHR '','' # Join ws"
  by (cases ws) simp_all

lemma Join_Cons_Cons: "Join ((c # w) # ws) = c # Join (w # ws)"
  by (cases ws) simp_all

lemma Join_Split: "Join (Split s) = s"
proof (induction s)
  case Nil
  show ?case by simp
next
  case (Cons c cs)
  obtain w ws where sp: "Split cs = w # ws"
    using Split_not_Nil [of cs] by (cases "Split cs") auto
  show ?case
  proof (cases "c = CHR '',''")
    case True
    then have "Join (Split (c # cs)) = CHR '','' # Join (Split cs)"
      by (simp add: Join_Cons_nonempty)
    with True Cons.IH show ?thesis by simp
  next
    case False
    then have "Join (Split (c # cs)) = c # Join (Split cs)"
      using sp by (simp add: Join_Cons_Cons)
    with Cons.IH show ?thesis by simp
  qed
qed

lemma last_dropWhile: "dropWhile P xs \<noteq> [] \<Longrightarrow> last (dropWhile P xs) = last xs"
  by (induction xs) (auto split: if_splits)

lemma TrimSpace_trimmed:
  assumes "TrimSpace s \<noteq> []"
  shows "\<not> isSpace (hd (TrimSpace s)) \<and> \<not> isSpace (last (TrimSpace s))"
proof -
  define t where "t = dropWhile isSpace s"
  define u where "u = dropWhile isSpace (rev t)"
  have r: "TrimSpace s = rev u" by (simp add: TrimSpace_def t_def u_def)
  with assms have u: "u \<noteq> []" by simp
  then have t: "t \<noteq> []" by (auto simp: u_def)
  have "\<not> isSpace (hd u)" using u unfolding u_def by (rule hd_dropWhile)
  moreover have "last u = last (rev t)" using u unfolding u_def by (rule last_dropWhile)
  then have "last u = hd t" using t by (simp add: last_rev)
  moreover have "\<not> isSpace (hd t)" using t unfolding t_def by (rule hd_dropWhile)
  ultimately show ?thesis using u by (simp add: r hd_rev last_rev)
qed

lemma set_TrimSpace: "set (TrimSpace w) \<subseteq> set w"
  unfolding TrimSpace_def by (auto dest!: set_dropWhileD)

subsection \<open>One turn of the loop of new.go\<close>

lemma logs_appendLog [simp]: "logs (appendLog m s) = logs s @ [m]"
  by (simp add: appendLog_def)

lemma dirs_appendLog [simp]: "dirs (appendLog m s) = dirs s"
  by (simp add: appendLog_def)

lemma calls_appendLog [simp]: "calls (appendLog m s) = calls s"
  by (simp add: appendLog_def)

lemma logs_RemoveAll [simp]: "logs (snd (os_RemoveAll e p s)) = logs s"
  by (simp add: os_RemoveAll_def split: option.splits)

lemma calls_RemoveAll [simp]: "calls (snd (os_RemoveAll e p s)) = calls s"
  by (simp add: os_RemoveAll_def split: option.splits)

lemma dirs_RemoveAll:
  "dirs (snd (os_RemoveAll e p s)) = (if RemoveAll e p = None then dirs s - {p} else dirs s)"
  by (simp add: os_RemoveAll_def split: option.splits)

lemma calls_keep_or_remove [simp]: "calls (keep_or_remove e ds repo d s) = calls s"
  by (simp add: keep_or_remove_def os_RemoveAll_def os_MkdirAll_def os_Rename_def Let_def
      split: option.splits)

lemma logs_keep_or_remove:
  "\<exists>m. logs (keep_or_remove e ds repo d s) = logs s @ [m] \<and>
       (prefix ''Error removing '' m \<or> prefix ''Removed '' m \<or>
        prefix ''Error moving '' m \<or> prefix ''Local '' m)"
  by (simp add: keep_or_remove_def os_RemoveAll_def os_MkdirAll_def os_Rename_def Let_def
      split: option.splits)

lemma dirs_keep_or_remove_dontSave:
  "dirs (keep_or_remove e True repo d s) = (if RemoveAll e d = None then dirs s - {d} else dirs s)"
  by (simp add: keep_or_remove_def os_RemoveAll_def split: option.splits)

text \<open>What one turn does, by the step at which it ends.\<close>

lemma migrate_one_create_failed:
  assumes "createAzureRepo e repo ao ap at = Inl err"
  shows "migrate_one e gt at ao ap ds repo s =
     \<lparr>logs = logs s @ [''Migrating repository: '' @ repo,
                          ''Error creating Azure repo for '' @ repo @ '': '' @ err],
       dirs = dirs s, calls = calls s\<rparr>"
  using assms by (cases s) (simp add: migrate_one_def appendLog_def)

lemma migrate_one_tempdir_failed:
  assumes "createAzureRepo e repo ao ap at = Inr url"
    and "TempDir e (ReplaceAll_slash repo) = Inl err"
  shows "migrate_one e gt at ao ap ds repo s =
     \<lparr>logs = logs s @ [''Migrating repository: '' @ repo,
                          ''Created Azure repo: '' @ url,
                          ''Error creating temporary directory for '' @ repo @ '': '' @ err],
       dirs = dirs s, calls = calls s\<rparr>"
  using assms by (cases s) (simp add: migrate_one_def appendLog_def ioutil_TempDir_def)

lemma migrate_one_clone_failed:
  assumes "createAzureRepo e repo ao ap at = Inr url"
    and "TempDir e (ReplaceAll_slash repo) = Inr d"
    and "CombinedOutput e (cloneCmd (githubRepoURL gt repo) d) = (out, Some err)"
  shows "migrate_one e gt at ao ap ds repo s =
     snd (os_RemoveAll e d
       \<lparr>logs = logs s @ [''Migrating repository: '' @ repo,
                          ''Created Azure repo: '' @ url,
                          ''Cloning repository into '' @ d,
                          ''Error cloning '' @ repo @ '': '' @ err @ '', output: '' @ out],
        dirs = insert d (dirs s),
        calls = calls s @ [Exec (cloneCmd (githubRepoURL gt repo) d)]\<rparr>)"
  using assms by (cases s) (simp add: migrate_one_def appendLog_def ioutil_TempDir_def exec_def)

lemma migrate_one_remote_failed:
  assumes "createAzureRepo e repo ao ap at = Inr url"
    and "TempDir e (ReplaceAll_slash repo) = Inr d"
    and "CombinedOutput e (cloneCmd (githubRepoURL gt repo) d) = (out1, None)"
    and "CombinedOutput e (remoteAddCmd d url) = (out, Some err)"
  shows "migrate_one e gt at ao ap ds repo s =
     snd (os_RemoveAll e d
       \<lparr>logs = logs s @ [''Migrating repository: '' @ repo,
                          ''Created Azure repo: '' @ url,
                          ''Cloning repository into '' @ d,
                          ''Error adding Azure remote for '' @ repo @ '': '' @ err @ '', output: '' @ out],
        dirs = insert d (dirs s),
        calls = calls s @ [Exec (cloneCmd (githubRepoURL gt repo) d),
                           Exec (remoteAddCmd d url)]\<rparr>)"
  using assms by (cases s) (simp add: migrate_one_def appendLog_def ioutil_TempDir_def exec_def)

lemma migrate_one_push_all_failed:
  assumes "createAzureRepo e repo ao ap at = Inr url"
    and "TempDir e (ReplaceAll_slash repo) = Inr d"
    and "CombinedOutput e (cloneCmd (githubRepoURL gt repo) d) = (out1, None)"
    and "CombinedOutput e (remoteAddCmd d url) = (out2, None)"
    and "CombinedOutput e (pushAllCmd d) = (out, Some err)"
  shows "migrate_one e gt at ao ap ds repo s =
     snd (os_RemoveAll e d
       \<lparr>logs = logs s @ [''Migrating repository: '' @ repo,
                          ''Created Azure repo: '' @ url,
                          ''Cloning repository into '' @ d,
                          ''Error pushing branches for '' @ repo @ '': '' @ err @ '', output: '' @ out],
        dirs = insert d (dirs s),
        calls = calls s @ [Exec (cloneCmd (githubRepoURL gt repo) d),
                           Exec (remoteAddCmd d url), Exec (pushAllCmd d)]\<rparr>)"
  using assms by (cases s) (simp add: migrate_one_def appendLog_def ioutil_TempDir_def exec_def)

lemma migrate_one_push_tags_failed:
  assumes "createAzureRepo e repo ao ap at = Inr url"
    and "TempDir e (ReplaceAll_slash repo) = Inr d"
    and "CombinedOutput e (cloneCmd (githubRepoURL gt repo) d) = (out1, None)"
    and "CombinedOutput e (remoteAddCmd d url) = (out2, None)"
    and "CombinedOutput e (pushAllCmd d) = (out3, None)"
    and "CombinedOutput e (pushTagsCmd d) = (out, Some err)"
  shows "migrate_one e gt at ao ap ds repo s =
     snd (os_RemoveAll e d
       \<lparr>logs = logs s @ [''Migrating repository: '' @ repo,
                          ''Created Azure repo: '' @ url,
                          ''Cloning repository into '' @ d,
                          ''Error pushing tags for '' @ repo @ '': '' @ err @ '', output: '' @ out],
        dirs = insert d (dirs s),
        calls = calls s @ [Exec (cloneCmd (githubRepoURL gt repo) d),
                           Exec (remoteAddCmd d url), Exec (pushAllCmd d), Exec (pushTagsCmd d)]\<rparr>)"
  using assms by (cases s) (simp add: migrate_one_def appendLog_def ioutil_TempDir_def exec_def)

lemma migrate_one_succeeded:
  assumes "createAzureRepo e repo ao ap at = Inr url"
    and "TempDir e (ReplaceAll_slash repo) = Inr d"
    and "CombinedOutput e (cloneCmd (githubRepoURL gt repo) d) = (out1, None)"
    and "CombinedOutput e (remoteAddCmd d url) = (out2, None)"
    and "CombinedOutput e (pushAllCmd d) = (out3, None)"
    and "CombinedOutput e (pushTagsCmd d) = (out4, None)"
  shows "migrate_one e gt at ao ap ds repo s =
     keep_or_remove e ds repo d
       \<lparr>logs = logs s @ [''Migrating repository: '' @ repo,
                          ''Created Azure repo: '' @ url,
                          ''Cloning repository into '' @ d,
                          ''Successfully migrated '' @ repo @ '' to Azure.''],
        dirs = insert d (dirs s),
        calls = calls s @ [Exec (cloneCmd (githubRepoURL gt repo) d),
                           Exec (remoteAddCmd d url), Exec (pushAllCmd d), Exec (pushTagsCmd d)]\<rparr>"
  using assms by (cases s) (simp add: migrate_one_def appendLog_def ioutil_TempDir_def exec_def)

text \<open>The environment decides at which step a turn ends.\<close>

lemma turn_cases [case_names create_failed tempdir_failed clone_failed remote_failed
    push_all_failed push_tags_failed succeeded]:
  obtains err where "createAzureRepo e repo ao ap at = Inl err"
  | url err where "createAzureRepo e repo ao ap at = Inr url"
      "TempDir e (ReplaceAll_slash repo) = Inl err"
  | url d out err where "createAzureRepo e repo ao ap at = Inr url"
      "TempDir e (ReplaceAll_slash repo) = Inr d"
      "CombinedOutput e (cloneCmd (githubRepoURL gt repo) d) = (out, Some err)"
  | url d out1 out err where "createAzureRepo e repo ao ap at = Inr url"
      "TempDir e (ReplaceAll_slash repo) = Inr d"
      "CombinedOutput e (cloneCmd (githubRepoURL gt repo) d) = (out1, None)"
      "CombinedOutput e (remoteAddCmd d url) = (out, Some err)"
  | url d out1 out2 out err where "createAzureRepo e repo ao ap at = Inr url"
      "TempDir e (ReplaceAll_slash repo) = Inr d"
      "CombinedOutput e (cloneCmd (githubRepoURL gt repo) d) = (out1, None)"
      "CombinedOutput e (remoteAddCmd d url) = (out2, None)"
      "CombinedOutput e (pushAllCmd d) = (out, Some err)"
  | url d out1 out2 out3 out err where "createAzureRepo e repo ao ap at = Inr url"
      "TempDir e (ReplaceAll_slash repo) = Inr d"
      "CombinedOutput e (cloneCmd (githubRepoURL gt repo) d) = (out1, None)"
      "CombinedOutput e (remoteAddCmd d url) = (out2, None)"
      "CombinedOutput e (pushAllCmd d) = (out3, None)"
      "CombinedOutput e (pushTagsCmd d) = (out, Some err)"
  | url d out1 out2 out3 out4 where "createAzureRepo e repo ao ap at = Inr url"
      "TempDir e (ReplaceAll_slash repo) = Inr d"
      "CombinedOutput e (cloneCmd (githubRepoURL gt repo) d) = (out1, None)"
      "CombinedOutput e (remoteAddCmd d url) = (out2, None)"
      "CombinedOutput e (pushAllCmd d) = (out3, None)"
      "CombinedOutput e (pushTagsCmd d) = (out4, None)"
proof (cases "createAzureRepo e repo ao ap at")
  case (Inl err)
  then show ?thesis by (rule that(1))
next
  case create: (Inr url)
  show ?thesis
  proof (cases "TempDir e (ReplaceAll_slash repo)")
    case (Inl err)
    with create show ?thesis by (rule that(2))
  next
    case tmp: (Inr d)
    obtain out1 r1 where c1: "CombinedOutput e (cloneCmd (githubRepoURL gt repo) d) = (out1, r1)"
      by (cases "CombinedOutput e (cloneCmd (githubRepoURL gt repo) d)")
    obtain out2 r2 where c2: "CombinedOutput e (remoteAddCmd d url) = (out2, r2)"
      by (cases "CombinedOutput e (remoteAddCmd d url)")
    obtain out3 r3 where c3: "CombinedOutput e (pushAllCmd d) = (out3, r3)"
      by (cases "CombinedOutput e (pushAllCmd d)")
    obtain out4 r4 where c4: "CombinedOutput e (pushTagsCmd d) = (out4, r4)"
      by (cases "CombinedOutput e (pushTagsCmd d)")
    show ?thesis
    proof (cases r1)
      case (Some err)
      with create tmp c1 show ?thesis using that(3) by blast
    next
      case n1: None
      show ?thesis
      proof (cases r2)
        case (Some err)
        with create tmp c1 c2 n1 show ?thesis using that(4) by blast
      next
        case n2: None
        show ?thesis
        proof (cases r3)
          case (Some err)
          with create tmp c1 c2 c3 n1 n2 show ?thesis using that(5) by blast
        next
          case n3: None
          show ?thesis
          proof (cases r4)
            case (Some err)
            with create tmp c1 c2 c3 c4 n1 n2 n3 show ?thesis using that(6) by blast
          next
            case None
            with create tmp c1 c2 c3 c4 n1 n2 n3 show ?thesis using that(7) by blast
          qed
        qed
      qed
    qed
  qed
qed

lemma new_logs_append [simp]: "new_logs s \<lparr>logs = logs s @ ms, dirs = D, calls = C\<rparr> = ms"
  by (simp add: new_logs_def)

lemma new_calls_same [simp]: "new_calls s \<lparr>logs = L, dirs = D, calls = calls s\<rparr> = []"
  by (simp add: new_calls_def)

lemma new_calls_append [simp]: "new_calls s \<lparr>logs = L, dirs = D, calls = calls s @ cs\<rparr> = cs"
  by (simp add: new_calls_def)

lemma new_logs_RemoveAll [simp]: "new_logs s (snd (os_RemoveAll e p s')) = new_logs s s'"
  by (simp add: new_logs_def)

lemma new_calls_RemoveAll [simp]: "new_calls s (snd (os_RemoveAll e p s')) = new_calls s s'"
  by (simp add: new_calls_def)

lemma new_calls_keep_or_remove [simp]:
  "new_calls s (keep_or_remove e ds repo d s') = new_calls s s'"
  by (simp add: new_calls_def)

lemma new_logs_keep_or_remove:
  "\<exists>m. new_logs s (keep_or_remove e ds repo d \<lparr>logs = logs s @ ms, dirs = D, calls = C\<rparr>) = ms @ [m] \<and>
       (prefix ''Error removing '' m \<or> prefix ''Removed '' m \<or>
        prefix ''Error moving '' m \<or> prefix ''Local '' m)"
  using logs_keep_or_remove [of e ds repo d "\<lparr>logs = logs s @ ms, dirs = D, calls = C\<rparr>"]
  by (auto simp: new_logs_def)

lemma execs_append [simp]: "execs (xs @ ys) = execs xs @ execs ys"
  by (induction xs rule: execs.induct) simp_all

subsection \<open>The message about the created repository\<close>

lemma sublist_append_left: "sublist (xs @ ys) zs \<Longrightarrow> sublist xs zs"
  by (metis append.assoc sublist_def)

lemma sublist_behind: "sublist xs ys \<Longrightarrow> sublist xs (ps @ ys)"
  by (metis append.assoc sublist_def)

lemma created_is_logged:
  assumes "createAzureRepo e repo ao ap at = Inr url"
  shows "(''Created Azure repo: '' @ url) \<in> set (new_logs s (migrate_one e gt at ao ap ds repo s))"
proof (cases rule: turn_cases [where e = e and repo = repo and ao = ao and ap = ap and at = at and gt = gt])
  case (create_failed err)
  with assms show ?thesis by simp
next
  case (tempdir_failed url' err)
  with assms show ?thesis by (simp add: migrate_one_tempdir_failed)
next
  case (clone_failed url' d out err)
  with assms show ?thesis by (simp add: migrate_one_clone_failed)
next
  case (remote_failed url' d out1 out err)
  with assms show ?thesis by (simp add: migrate_one_remote_failed)
next
  case (push_all_failed url' d out1 out2 out err)
  with assms show ?thesis by (simp add: migrate_one_push_all_failed)
next
  case (push_tags_failed url' d out1 out2 out3 out err)
  with assms show ?thesis by (simp add: migrate_one_push_tags_failed)
next
  case (succeeded url' d out1 out2 out3 out4)
  note eq = migrate_one_succeeded [OF succeeded, of ds s]
  obtain m where "new_logs s (migrate_one e gt at ao ap ds repo s)
        = [''Migrating repository: '' @ repo, ''Created Azure repo: '' @ url',
           ''Cloning repository into '' @ d,
           ''Successfully migrated '' @ repo @ '' to Azure.''] @ [m]"
    unfolding eq using new_logs_keep_or_remove by blast
  with assms succeeded show ?thesis by simp
qed

subsection \<open>The terminal records of the logs\<close>

lemma after_success_not_terminal:
  "prefix ''Error removing '' m \<or> prefix ''Removed '' m \<or>
   prefix ''Error moving '' m \<or> prefix ''Local '' m \<Longrightarrow> \<not> terminal m"
  by (auto simp: terminal_def prefix_def)

lemma turn_logs:
  "\<exists>ms m. logs (migrate_one e gt at ao ap ds repo s) = logs s @ ms \<and>
          filter terminal ms = [m] \<and> outcome_for repo m"
proof (cases rule: turn_cases [where e = e and repo = repo and ao = ao and ap = ap and at = at and gt = gt])
  case (create_failed err)
  then show ?thesis
    by (simp add: migrate_one_create_failed terminal_def outcome_for_def failed_record_def)
next
  case (tempdir_failed url err)
  then show ?thesis
    by (simp add: migrate_one_tempdir_failed terminal_def outcome_for_def failed_record_def)
next
  case (clone_failed url d out err)
  then show ?thesis
    by (simp add: migrate_one_clone_failed terminal_def outcome_for_def failed_record_def)
next
  case (remote_failed url d out1 out err)
  then show ?thesis
    by (simp add: migrate_one_remote_failed terminal_def outcome_for_def failed_record_def)
next
  case (push_all_failed url d out1 out2 out err)
  then show ?thesis
    by (simp add: migrate_one_push_all_failed terminal_def outcome_for_def failed_record_def)
next
  case (push_tags_failed url d out1 out2 out3 out err)
  then show ?thesis
    by (simp add: migrate_one_push_tags_failed terminal_def outcome_for_def failed_record_def)
next
  case (succeeded url d out1 out2 out3 out4)
  note eq = migrate_one_succeeded [OF succeeded, of ds s]
  let ?ms = "[''Migrating repository: '' @ repo, ''Created Azure repo: '' @ url,
           ''Cloning repository into '' @ d,
           ''Successfully migrated '' @ repo @ '' to Azure.'']"
  obtain m where m: "logs (migrate_one e gt at ao ap ds repo s) = (logs s @ ?ms) @ [m]"
      "\<not> terminal m"
    unfolding eq
    using logs_keep_or_remove [of e ds repo d] after_success_not_terminal
    by (metis state.select_convs(1))
  have "filter terminal (?ms @ [m]) = [''Successfully migrated '' @ repo @ '' to Azure.'']"
    using m(2) by (simp add: terminal_def)
  moreover have "outcome_for repo (''Successfully migrated '' @ repo @ '' to Azure.'')"
    by (simp add: outcome_for_def succeeded_record_def)
  moreover have "logs (migrate_one e gt at ao ap ds repo s) = logs s @ (?ms @ [m])"
    using m(1) by simp
  ultimately show ?thesis by blast
qed

lemma loop_logs:
  "\<exists>ms. logs (migrate_loop es gt at ao ap ds i repos s) = logs s @ ms \<and>
        list_all2 outcome_for repos (filter terminal ms)"
proof (induction repos arbitrary: i s)
  case Nil
  show ?case by simp
next
  case (Cons repo repos)
  obtain ms m where ms: "logs (migrate_one (es i) gt at ao ap ds repo s) = logs s @ ms"
      "filter terminal ms = [m]" "outcome_for repo m"
    using turn_logs [of "es i" gt at ao ap ds repo s] by blast
  obtain ms' where ms': "logs (migrate_loop es gt at ao ap ds (Suc i) repos
        (migrate_one (es i) gt at ao ap ds repo s))
      = logs (migrate_one (es i) gt at ao ap ds repo s) @ ms'"
      "list_all2 outcome_for repos (filter terminal ms')"
    using Cons.IH [of "Suc i" "migrate_one (es i) gt at ao ap ds repo s"] by blast
  have "logs (migrate_loop es gt at ao ap ds i (repo # repos) s) = logs s @ (ms @ ms')"
    using ms ms' by simp
  moreover have "list_all2 outcome_for (repo # repos) (filter terminal (ms @ ms'))"
    using ms ms' by simp
  ultimately show ?case by blast
qed

lemma migrate_logs:
  assumes "TrimSpace (githubTokenEntry f) \<noteq> []" and "TrimSpace (azureTokenEntry f) \<noteq> []"
    and "TrimSpace (azureOrgEntry f) \<noteq> []" and "TrimSpace (azureProjectEntry f) \<noteq> []"
    and "getGitHubRepos e0 [] (TrimSpace (githubTokenEntry f)) \<noteq> []"
  shows "list_all2 outcome_for (getGitHubRepos e0 [] (TrimSpace (githubTokenEntry f)))
           (filter terminal (new_logs s (migrate f e0 es s)))"
proof -
  let ?repos = "getGitHubRepos e0 [] (TrimSpace (githubTokenEntry f))"
  let ?s3 = "appendLog (''Found '' @ Itoa (length ?repos) @ '' repositories.'')
               (appendLog ''Fetching repositories from GitHub...''
                 (appendLog ''Starting migration...'' s))"
  obtain ms where ms: "logs (migrate_loop es (TrimSpace (githubTokenEntry f))
        (TrimSpace (azureTokenEntry f)) (TrimSpace (azureOrgEntry f))
        (TrimSpace (azureProjectEntry f)) (dontSaveCheckbox f) 0 ?repos ?s3) = logs ?s3 @ ms"
      "list_all2 outcome_for ?repos (filter terminal ms)"
    using loop_logs by blast
  have "logs (migrate f e0 es s)
      = logs s @ [''Starting migration...'', ''Fetching repositories from GitHub...'',
                  ''Found '' @ Itoa (length ?repos) @ '' repositories.''] @ ms
          @ [''Migration completed.'']"
    using assms ms(1) by (simp add: migrate_def Let_def)
  then have "filter terminal (new_logs s (migrate f e0 es s)) = filter terminal ms"
    by (simp add: new_logs_def terminal_def)
  with ms(2) show ?thesis by simp
qed

subsection \<open>The commands, the attempts and the directory of a turn\<close>

lemma turn_gated:
  assumes "createAzureRepo e repo ao ap at = Inr url"
    and "TempDir e (ReplaceAll_slash repo) = Inr d"
  shows "execs (new_calls s (migrate_one e gt at ao ap ds repo s))
           = gated e [cloneCmd (githubRepoURL gt repo) d, remoteAddCmd d url,
                      pushAllCmd d, pushTagsCmd d]"
proof (cases rule: turn_cases [where e = e and repo = repo and ao = ao and ap = ap and at = at and gt = gt])
  case (create_failed err)
  with assms show ?thesis by simp
next
  case (tempdir_failed url' err)
  with assms show ?thesis by simp
next
  case (clone_failed url' d' out err)
  with assms show ?thesis by (simp add: migrate_one_clone_failed)
next
  case (remote_failed url' d' out1 out err)
  with assms show ?thesis by (simp add: migrate_one_remote_failed)
next
  case (push_all_failed url' d' out1 out2 out err)
  with assms show ?thesis by (simp add: migrate_one_push_all_failed)
next
  case (push_tags_failed url' d' out1 out2 out3 out err)
  with assms show ?thesis by (simp add: migrate_one_push_tags_failed)
next
  case (succeeded url' d' out1 out2 out3 out4)
  with assms show ?thesis by (simp add: migrate_one_succeeded)
qed

lemma turn_no_commands:
  assumes "createAzureRepo e repo ao ap at = Inl err \<or>
           (createAzureRepo e repo ao ap at = Inr url \<and> TempDir e (ReplaceAll_slash repo) = Inl err)"
  shows "execs (new_calls s (migrate_one e gt at ao ap ds repo s)) = []"
  using assms by (auto simp: migrate_one_create_failed migrate_one_tempdir_failed)

lemma migrateRepo_gated:
  "execs (new_calls s (migrateRepo e gitHubOrg adoOrg adoProject repoName gitPat adoPat deleteAfter s))
     = gated e [mirrorCloneCmd gitPat gitHubOrg repoName,
                remoteAddAdoCmd adoPat adoOrg adoProject repoName,
                pushMirrorCmd repoName]"
  by (simp add: migrateRepo_def Let_def Run_def logMsg_def os_RemoveAll_def new_calls_def
      split: option.splits)


lemma started_append [simp]: "started (xs @ ys) = started xs @ started ys"
  by (simp add: started_def)








lemma turn_clone_gone_iff:
  assumes "createAzureRepo e repo ao ap at = Inr url"
    and "TempDir e (ReplaceAll_slash repo) = Inr d"
    and "ds \<or> (''Successfully migrated '' @ repo @ '' to Azure.'')
                 \<notin> set (new_logs s (migrate_one e gt at ao ap ds repo s))"
  shows "(d \<notin> dirs (migrate_one e gt at ao ap ds repo s)) = (RemoveAll e d = None)"
proof (cases rule: turn_cases [where e = e and repo = repo and ao = ao and ap = ap and at = at and gt = gt])
  case (create_failed err)
  with assms show ?thesis by simp
next
  case (tempdir_failed url err)
  with assms show ?thesis by simp
next
  case (clone_failed url' d' out err)
  with assms show ?thesis by (simp add: migrate_one_clone_failed dirs_RemoveAll)
next
  case (remote_failed url' d' out1 out err)
  with assms show ?thesis by (simp add: migrate_one_remote_failed dirs_RemoveAll)
next
  case (push_all_failed url' d' out1 out2 out err)
  with assms show ?thesis by (simp add: migrate_one_push_all_failed dirs_RemoveAll)
next
  case (push_tags_failed url' d' out1 out2 out3 out err)
  with assms show ?thesis by (simp add: migrate_one_push_tags_failed dirs_RemoveAll)
next
  case (succeeded url' d' out1 out2 out3 out4)
  note eq = migrate_one_succeeded [OF succeeded, of ds s]
  show ?thesis
  proof (cases ds)
    case True
    show ?thesis
      unfolding eq using True assms succeeded
      by (simp add: dirs_keep_or_remove_dontSave)
  next
    case False
    obtain m where "new_logs s (migrate_one e gt at ao ap ds repo s)
        = [''Migrating repository: '' @ repo, ''Created Azure repo: '' @ url',
           ''Cloning repository into '' @ d',
           ''Successfully migrated '' @ repo @ '' to Azure.''] @ [m]"
      unfolding eq using new_logs_keep_or_remove by blast
    with assms(3) False show ?thesis by simp
  qed
qed

section \<open>The claims\<close>

subsection \<open>C10: the user argument of getGitHubRepos\<close>

text \<open>C10. The list \<open>getGitHubRepos\<close> returns does not depend on its \<open>user\<close> argument: with
  the same token and the same environment (the same answers to the same requests), any two
  users give the same list.\<close>

theorem getGitHubRepos_ignores_user:
  "getGitHubRepos e user1 token = getGitHubRepos e user2 token"
  by (simp add: getGitHubRepos_def)

subsection \<open>C8: the work list of main.go\<close>

text \<open>C8, as stated, fails: for the text \<open>a, ,a\<close> the handler of main.go starts goroutines for
  the names \<open>a\<close>, the empty name and \<open>a\<close> again, where the specification's list is \<open>a\<close> alone.
  Empty entries are not dropped and duplicates are not removed.\<close>

theorem workList_keeps_empty_and_duplicates:
  "workList gaps_form = [''a'', [], ''a''] \<and> spec_workList (repoList_Text gaps_form) = [''a'']"
  by (simp add: workList_def spec_workList_def gaps_form_def TrimSpace_def isSpace_def)

text \<open>C8, amended. The work list is the text split at its commas (joining the fields with
  commas gives the text back, so there is one entry more than there are commas), each field
  trimmed of leading and trailing white space, in the order of the text; empty entries and
  duplicates stay.\<close>

theorem workList_is_trimmed_fields:
  "Join (Split (repoList_Text f)) = repoList_Text f \<and>
   length (workList f) = Suc (count_list (repoList_Text f) CHR '','') \<and>
   (\<forall>i < length (workList f).
      workList f ! i = TrimSpace (Split (repoList_Text f) ! i) \<and>
      CHR '','' \<notin> set (workList f ! i) \<and>
      (workList f ! i = [] \<or>
       \<not> isSpace (hd (workList f ! i)) \<and> \<not> isSpace (last (workList f ! i))))"
proof (intro conjI allI impI)
  show "Join (Split (repoList_Text f)) = repoList_Text f" by (rule Join_Split)
  show "length (workList f) = Suc (count_list (repoList_Text f) CHR '','')"
    by (simp add: workList_def length_Split)
next
  fix i assume i: "i < length (workList f)"
  then have eq: "workList f ! i = TrimSpace (Split (repoList_Text f) ! i)"
    by (simp add: workList_def)
  then show "workList f ! i = TrimSpace (Split (repoList_Text f) ! i)" .
  have "Split (repoList_Text f) ! i \<in> set (Split (repoList_Text f))"
    using i by (simp add: workList_def)
  then have "CHR '','' \<notin> set (Split (repoList_Text f) ! i)" by (rule Split_no_comma)
  then show "CHR '','' \<notin> set (workList f ! i)"
    using set_TrimSpace [of "Split (repoList_Text f) ! i"] by (auto simp: eq)
  show "workList f ! i = [] \<or>
       \<not> isSpace (hd (workList f ! i)) \<and> \<not> isSpace (last (workList f ! i))"
    using TrimSpace_trimmed [of "Split (repoList_Text f) ! i"] by (auto simp: eq)
qed

theorem workList_is_trimmed_fields_witness:
  "(2::nat) < length (workList gaps_form) \<and>
   workList gaps_form ! 2 = TrimSpace (Split (repoList_Text gaps_form) ! 2) \<and>
   workList gaps_form ! 2 = ''a'' \<and>
   CHR '','' \<notin> set (workList gaps_form ! 2) \<and>
   \<not> isSpace (hd (workList gaps_form ! 2))"
  using workList_is_trimmed_fields [of gaps_form]
  by (simp add: workList_def gaps_form_def TrimSpace_def isSpace_def)

subsection \<open>C6: success is reported only after both pushes\<close>

text \<open>C6. A turn of new.go's loop reports its repository as migrated only if both the push of
  the branches and the push of the tags were run and returned no error: whenever a message of
  success is among the messages of the turn, the turn has created the repository and the
  temporary directory, and both push commands are among its calls and ended without error.\<close>

theorem reported_success_needs_both_pushes:
  assumes "m \<in> set (new_logs s (migrate_one e githubToken azureToken azureOrg azureProject dontSave repo s))"
    and "prefix ''Successfully migrated '' m"
  shows "\<exists>url d. createAzureRepo e repo azureOrg azureProject azureToken = Inr url \<and>
           TempDir e (ReplaceAll_slash repo) = Inr d \<and>
           Exec (pushAllCmd d) \<in> set (new_calls s (migrate_one e githubToken azureToken azureOrg azureProject dontSave repo s)) \<and>
           snd (CombinedOutput e (pushAllCmd d)) = None \<and>
           Exec (pushTagsCmd d) \<in> set (new_calls s (migrate_one e githubToken azureToken azureOrg azureProject dontSave repo s)) \<and>
           snd (CombinedOutput e (pushTagsCmd d)) = None"
proof (cases rule: turn_cases [where e = e and repo = repo and ao = azureOrg and ap = azureProject and at = azureToken and gt = githubToken])
  case (create_failed err)
  with assms show ?thesis by (auto simp: migrate_one_create_failed)
next
  case (tempdir_failed url err)
  with assms show ?thesis by (auto simp: migrate_one_tempdir_failed)
next
  case (clone_failed url d out err)
  with assms show ?thesis by (auto simp: migrate_one_clone_failed)
next
  case (remote_failed url d out1 out err)
  with assms show ?thesis by (auto simp: migrate_one_remote_failed)
next
  case (push_all_failed url d out1 out2 out err)
  with assms show ?thesis by (auto simp: migrate_one_push_all_failed)
next
  case (push_tags_failed url d out1 out2 out3 out err)
  with assms show ?thesis by (auto simp: migrate_one_push_tags_failed)
next
  case (succeeded url d out1 out2 out3 out4)
  then show ?thesis by (simp add: migrate_one_succeeded)
qed


theorem reported_success_needs_both_pushes_witness:
  "''Successfully migrated org/a to Azure.''
     \<in> set (new_logs start (migrate_one ok_env ''GH'' ''AZ'' ''https://dev.azure.com/o'' ''p'' True ''org/a'' start)) \<and>
   prefix ''Successfully migrated '' ''Successfully migrated org/a to Azure.'' \<and>
   TempDir ok_env (ReplaceAll_slash ''org/a'') = Inr ''/tmp/org_a042'' \<and>
   snd (CombinedOutput ok_env (pushAllCmd ''/tmp/org_a042'')) = None \<and>
   snd (CombinedOutput ok_env (pushTagsCmd ''/tmp/org_a042'')) = None"
proof -
  have run: "new_logs start (migrate_one ok_env ''GH'' ''AZ'' ''https://dev.azure.com/o'' ''p'' True ''org/a'' start)
     = [''Migrating repository: org/a'',
        ''Created Azure repo: https://AZ@dev.azure.com/o/p/_git/a'',
        ''Cloning repository into /tmp/org_a042'',
        ''Successfully migrated org/a to Azure.'',
        ''Removed local clone for org/a.'']"
    by (simp add: migrate_one_def createAzureRepo_def createRepoRequest_def ok_env_def
        ioutil_TempDir_def exec_def keep_or_remove_def os_RemoveAll_def appendLog_def
        ReplaceAll_slash_def new_logs_def start_def)
  have h1: "''Successfully migrated org/a to Azure.''
     \<in> set (new_logs start (migrate_one ok_env ''GH'' ''AZ'' ''https://dev.azure.com/o'' ''p'' True ''org/a'' start))"
    by (simp add: run)
  have h2: "prefix ''Successfully migrated '' ''Successfully migrated org/a to Azure.''"
    by simp
  show ?thesis
    using reported_success_needs_both_pushes [OF h1 h2] h1 h2
    by (simp add: ok_env_def ReplaceAll_slash_def)
qed

subsection \<open>C4: credentials in the log\<close>

text \<open>C4, as stated, fails: nothing is redacted. With the Azure token \<open>AZ\<close> and a destination
  that answers with a remote URL on \<open>dev.azure.com\<close>, the second message of the turn is the
  URL with the token in it (new.go, lines 100 and 179).\<close>

theorem token_in_created_message:
  "logs (migrate_one ok_env ''GH'' ''AZ'' ''https://dev.azure.com/o'' ''p'' True ''org/a'' start) ! 1
     = ''Created Azure repo: https://AZ@dev.azure.com/o/p/_git/a'' \<and>
   sublist ''AZ''
     (logs (migrate_one ok_env ''GH'' ''AZ'' ''https://dev.azure.com/o'' ''p'' True ''org/a'' start) ! 1)"
proof -
  have run: "logs (migrate_one ok_env ''GH'' ''AZ'' ''https://dev.azure.com/o'' ''p'' True ''org/a'' start)
     = [''Migrating repository: org/a'',
        ''Created Azure repo: https://AZ@dev.azure.com/o/p/_git/a'',
        ''Cloning repository into /tmp/org_a042'',
        ''Successfully migrated org/a to Azure.'',
        ''Removed local clone for org/a.'']"
    by (simp add: migrate_one_def createAzureRepo_def createRepoRequest_def ok_env_def
        ioutil_TempDir_def exec_def keep_or_remove_def os_RemoveAll_def appendLog_def
        ReplaceAll_slash_def start_def)
  have "''Created Azure repo: https://AZ@dev.azure.com/o/p/_git/a''
      = ''Created Azure repo: https://'' @ ''AZ'' @ ''@dev.azure.com/o/p/_git/a''"
    by simp
  then have "sublist ''AZ'' ''Created Azure repo: https://AZ@dev.azure.com/o/p/_git/a''"
    unfolding sublist_def by blast
  then show ?thesis by (simp add: run)
qed

text \<open>C4, amended. The messages are logged as they are built, without redaction: whenever
  the destination creates the repository (status 201) and the remote URL of its answer contains
  \<open>dev.azure.com\<close>, the log of the turn holds a message \<open>Created Azure repo: ...\<close> that shows
  the Azure token in clear.\<close>

theorem created_message_shows_token:
  assumes "NewRequest e ''POST'' (createRepoURL azureOrg azureProject) = None"
    and "Do e (createRepoRequest repo azureOrg azureProject azureToken) = Inr resp"
    and "StatusCode resp = 201"
    and "sublist ''dev.azure.com'' (Unmarshal_remoteUrl e (Body resp))"
  shows "\<exists>m. m \<in> set (new_logs s (migrate_one e githubToken azureToken azureOrg azureProject dontSave repo s)) \<and>
            prefix ''Created Azure repo: '' m \<and> sublist azureToken m"
proof -
  let ?url = "Replace1 (Unmarshal_remoteUrl e (Body resp)) ''dev.azure.com'' (azureToken @ ''@dev.azure.com'')"
  have c: "createAzureRepo e repo azureOrg azureProject azureToken = Inr ?url"
    using assms(1-3) by (simp add: createAzureRepo_def)
  have "sublist (azureToken @ ''@dev.azure.com'') ?url"
    using assms(4) by (rule Replace1_shows_new)
  then have "sublist azureToken ?url" by (rule sublist_append_left)
  then have "sublist azureToken (''Created Azure repo: '' @ ?url)"
    by (rule sublist_behind)
  moreover have "prefix ''Created Azure repo: '' (''Created Azure repo: '' @ ?url)"
    by simp
  ultimately show ?thesis
    using created_is_logged [OF c, of s githubToken dontSave] by blast
qed

theorem created_message_shows_token_witness:
  "NewRequest ok_env ''POST'' (createRepoURL ''https://dev.azure.com/o'' ''p'') = None \<and>
   Do ok_env (createRepoRequest ''org/a'' ''https://dev.azure.com/o'' ''p'' ''AZ'')
     = Inr \<lparr>StatusCode = 201, Status = ''201 Created'', Body = []\<rparr> \<and>
   sublist ''dev.azure.com''
     (Unmarshal_remoteUrl ok_env (Body \<lparr>StatusCode = 201, Status = ''201 Created'', Body = []\<rparr>)) \<and>
   (\<exists>m. m \<in> set (new_logs start
               (migrate_one ok_env ''GH'' ''AZ'' ''https://dev.azure.com/o'' ''p'' True ''org/a'' start)) \<and>
        prefix ''Created Azure repo: '' m \<and> sublist ''AZ'' m)"
proof -
  have h1: "NewRequest ok_env ''POST'' (createRepoURL ''https://dev.azure.com/o'' ''p'') = None"
    by (simp add: ok_env_def)
  have h2: "Do ok_env (createRepoRequest ''org/a'' ''https://dev.azure.com/o'' ''p'' ''AZ'')
     = Inr \<lparr>StatusCode = 201, Status = ''201 Created'', Body = []\<rparr>"
    by (simp add: ok_env_def createRepoRequest_def)
  have h3: "StatusCode \<lparr>StatusCode = 201, Status = ''201 Created'', Body = []\<rparr> = 201"
    by simp
  have "''https://dev.azure.com/o/p/_git/a'' = ''https://'' @ ''dev.azure.com'' @ ''/o/p/_git/a''"
    by simp
  then have "sublist ''dev.azure.com'' ''https://dev.azure.com/o/p/_git/a''"
    unfolding sublist_def by blast
  then have h4: "sublist ''dev.azure.com''
     (Unmarshal_remoteUrl ok_env (Body \<lparr>StatusCode = 201, Status = ''201 Created'', Body = []\<rparr>))"
    by (simp add: ok_env_def)
  show ?thesis
    using created_message_shows_token [OF h1 h2 h3 h4, of start "''GH''" True] h1 h2 h4
    by blast
qed

subsection \<open>C2: the clone after the transfer\<close>

text \<open>C2, as stated, fails, with the box "don't save" checked in both programs. In main.go a
  failed push returns at once and leaves the clone \<open>a.git\<close> where it is (main.go, lines 42-45).
  In new.go the removal is called, but a removal that fails leaves the temporary directory in
  place.\<close>

theorem clone_left_behind:
  "logs (migrateRepo push_fail_env ''org'' ''o'' ''p'' ''a'' ''G'' ''A'' True start)
     = [''Migrating repository: a'', ''Failed to push repository: exit status 1''] \<and>
   dirs (migrateRepo push_fail_env ''org'' ''o'' ''p'' ''a'' ''G'' ''A'' True start) = {''a.git''} \<and>
   logs (migrate_one rm_fail_env ''GH'' ''AZ'' ''https://dev.azure.com/o'' ''p'' True ''org/a'' start)
     = [''Migrating repository: org/a'',
        ''Created Azure repo: https://AZ@dev.azure.com/o/p/_git/a'',
        ''Cloning repository into /tmp/org_a042'',
        ''Successfully migrated org/a to Azure.'',
        ''Error removing local clone for org/a: permission denied''] \<and>
   dirs (migrate_one rm_fail_env ''GH'' ''AZ'' ''https://dev.azure.com/o'' ''p'' True ''org/a'' start)
     = {''/tmp/org_a042''}"
proof -
  have "logs (migrateRepo push_fail_env ''org'' ''o'' ''p'' ''a'' ''G'' ''A'' True start)
     = [''Migrating repository: a'', ''Failed to push repository: exit status 1'']"
    by (simp add: migrateRepo_def Let_def Run_def logMsg_def push_fail_env_def ok_env_def start_def
        mirrorCloneCmd_def remoteAddAdoCmd_def pushMirrorCmd_def dirName_def last_component_def)
  moreover have "dirs (migrateRepo push_fail_env ''org'' ''o'' ''p'' ''a'' ''G'' ''A'' True start) = {''a.git''}"
    by (simp add: migrateRepo_def Let_def Run_def logMsg_def push_fail_env_def ok_env_def start_def
        mirrorCloneCmd_def remoteAddAdoCmd_def pushMirrorCmd_def dirName_def last_component_def)
  moreover have "logs (migrate_one rm_fail_env ''GH'' ''AZ'' ''https://dev.azure.com/o'' ''p'' True ''org/a'' start)
     = [''Migrating repository: org/a'',
        ''Created Azure repo: https://AZ@dev.azure.com/o/p/_git/a'',
        ''Cloning repository into /tmp/org_a042'',
        ''Successfully migrated org/a to Azure.'',
        ''Error removing local clone for org/a: permission denied'']"
    by (simp add: migrate_one_def createAzureRepo_def createRepoRequest_def rm_fail_env_def ok_env_def
        ioutil_TempDir_def exec_def keep_or_remove_def os_RemoveAll_def appendLog_def
        ReplaceAll_slash_def start_def)
  moreover have "dirs (migrate_one rm_fail_env ''GH'' ''AZ'' ''https://dev.azure.com/o'' ''p'' True ''org/a'' start)
     = {''/tmp/org_a042''}"
    by (simp add: migrate_one_def createAzureRepo_def createRepoRequest_def rm_fail_env_def ok_env_def
        ioutil_TempDir_def exec_def keep_or_remove_def os_RemoveAll_def appendLog_def
        ReplaceAll_slash_def start_def)
  ultimately show ?thesis by blast
qed

text \<open>C2, amended, for new.go. Once \<open>createAzureRepo\<close> has returned a URL and
  \<open>ioutil.TempDir\<close> a directory, on every path on which the clone is not kept (a step failed, or
  "don't save local clone" is checked) the temporary directory no longer exists after the turn
  exactly when \<open>os.RemoveAll\<close> on it returns no error.\<close>

theorem clone_gone_iff_removal_succeeds:
  "createAzureRepo e repo azureOrg azureProject azureToken = Inr url \<and>
   TempDir e (ReplaceAll_slash repo) = Inr d \<and>
   (dontSave \<or> (''Successfully migrated '' @ repo @ '' to Azure.'')
       \<notin> set (new_logs s (migrate_one e githubToken azureToken azureOrg azureProject dontSave repo s)))
   \<longrightarrow> (d \<notin> dirs (migrate_one e githubToken azureToken azureOrg azureProject dontSave repo s))
        = (RemoveAll e d = None)"
  using turn_clone_gone_iff [of e repo azureOrg azureProject azureToken url d dontSave s githubToken]
  by blast

theorem clone_gone_iff_removal_succeeds_witness:
  "createAzureRepo push_fail_env ''org/a'' ''https://dev.azure.com/o'' ''p'' ''AZ''
     = Inr ''https://AZ@dev.azure.com/o/p/_git/a'' \<and>
   TempDir push_fail_env (ReplaceAll_slash ''org/a'') = Inr ''/tmp/org_a042'' \<and>
   (''Successfully migrated '' @ ''org/a'' @ '' to Azure.'')
     \<notin> set (new_logs start (migrate_one push_fail_env ''GH'' ''AZ'' ''https://dev.azure.com/o'' ''p'' False ''org/a'' start)) \<and>
   RemoveAll push_fail_env ''/tmp/org_a042'' = None \<and>
   ''/tmp/org_a042''
     \<notin> dirs (migrate_one push_fail_env ''GH'' ''AZ'' ''https://dev.azure.com/o'' ''p'' False ''org/a'' start) \<and>
   createAzureRepo rm_fail_env ''org/a'' ''https://dev.azure.com/o'' ''p'' ''AZ''
     = Inr ''https://AZ@dev.azure.com/o/p/_git/a'' \<and>
   TempDir rm_fail_env (ReplaceAll_slash ''org/a'') = Inr ''/tmp/org_a042'' \<and>
   RemoveAll rm_fail_env ''/tmp/org_a042'' = Some ''permission denied'' \<and>
   ''/tmp/org_a042''
     \<in> dirs (migrate_one rm_fail_env ''GH'' ''AZ'' ''https://dev.azure.com/o'' ''p'' True ''org/a'' start)"
proof -
  have p1: "createAzureRepo push_fail_env ''org/a'' ''https://dev.azure.com/o'' ''p'' ''AZ''
     = Inr ''https://AZ@dev.azure.com/o/p/_git/a''"
    by (simp add: createAzureRepo_def createRepoRequest_def push_fail_env_def ok_env_def)
  have p2: "TempDir push_fail_env (ReplaceAll_slash ''org/a'') = Inr ''/tmp/org_a042''"
    by (simp add: push_fail_env_def ok_env_def ReplaceAll_slash_def)
  have p3: "(''Successfully migrated '' @ ''org/a'' @ '' to Azure.'')
     \<notin> set (new_logs start (migrate_one push_fail_env ''GH'' ''AZ'' ''https://dev.azure.com/o'' ''p'' False ''org/a'' start))"
    by (simp add: migrate_one_def createAzureRepo_def createRepoRequest_def push_fail_env_def
        ok_env_def ioutil_TempDir_def exec_def os_RemoveAll_def appendLog_def
        ReplaceAll_slash_def new_logs_def start_def cloneCmd_def remoteAddCmd_def pushAllCmd_def
        githubRepoURL_def Let_def)
  have p4: "RemoveAll push_fail_env ''/tmp/org_a042'' = None"
    by (simp add: push_fail_env_def ok_env_def)
  have r1: "createAzureRepo rm_fail_env ''org/a'' ''https://dev.azure.com/o'' ''p'' ''AZ''
     = Inr ''https://AZ@dev.azure.com/o/p/_git/a''"
    by (simp add: createAzureRepo_def createRepoRequest_def rm_fail_env_def ok_env_def)
  have r2: "TempDir rm_fail_env (ReplaceAll_slash ''org/a'') = Inr ''/tmp/org_a042''"
    by (simp add: rm_fail_env_def ok_env_def ReplaceAll_slash_def)
  have r4: "RemoveAll rm_fail_env ''/tmp/org_a042'' = Some ''permission denied''"
    by (simp add: rm_fail_env_def ok_env_def)
  have a: "''/tmp/org_a042''
     \<notin> dirs (migrate_one push_fail_env ''GH'' ''AZ'' ''https://dev.azure.com/o'' ''p'' False ''org/a'' start)"
    using clone_gone_iff_removal_succeeds [of push_fail_env "''org/a''" "''https://dev.azure.com/o''"
        "''p''" "''AZ''" "''https://AZ@dev.azure.com/o/p/_git/a''" "''/tmp/org_a042''" False start
        "''GH''"] p1 p2 p3 p4
    by simp
  have b: "''/tmp/org_a042''
     \<in> dirs (migrate_one rm_fail_env ''GH'' ''AZ'' ''https://dev.azure.com/o'' ''p'' True ''org/a'' start)"
    using clone_gone_iff_removal_succeeds [of rm_fail_env "''org/a''" "''https://dev.azure.com/o''"
        "''p''" "''AZ''" "''https://AZ@dev.azure.com/o/p/_git/a''" "''/tmp/org_a042''" True start
        "''GH''"] r1 r2 r4
    by simp
  show ?thesis using p1 p2 p3 p4 r1 r2 r4 a b by simp
qed

subsection \<open>C1: one terminal record for each repository, in order\<close>

text \<open>C1, as stated, fails in main.go. The handler starts one goroutine for each name and
  waits for none; each appends its messages when it gets to them, and nothing locks the label.
  For the list \<open>a,b\<close>, in the schedule where the goroutine of \<open>b\<close> finishes first, the record of
  \<open>b\<close> stands before the record of \<open>a\<close>; and in the schedule where both read the label before
  either writes its last message, the record of \<open>a\<close> is overwritten and the label holds one
  terminal record for two names.\<close>

theorem records_in_completion_order:
  "workList ab_form = [''a'', ''b''] \<and>
   label_after [0, 0, 1, 1, 1, 1, 0, 0] ab_form (\<lambda>i. ok_env)
     = [''Migrating repository: a'', ''Migrating repository: b'',
        ''Successfully migrated repository: b'', ''Successfully migrated repository: a''] \<and>
   filter terminal_main (label_after [0, 0, 1, 1, 1, 1, 0, 0] ab_form (\<lambda>i. ok_env))
     = [''Successfully migrated repository: b'', ''Successfully migrated repository: a''] \<and>
   label_after [0, 0, 1, 1, 0, 1, 0, 1] ab_form (\<lambda>i. ok_env)
     = [''Migrating repository: a'', ''Migrating repository: b'',
        ''Successfully migrated repository: b''] \<and>
   filter terminal_main (label_after [0, 0, 1, 1, 0, 1, 0, 1] ab_form (\<lambda>i. ok_env))
     = [''Successfully migrated repository: b'']"
proof -
  have wl: "workList ab_form = [''a'', ''b'']"
    by (simp add: workList_def ab_form_def TrimSpace_def isSpace_def)
  have g: "goroutines ab_form (\<lambda>i. ok_env)
      = [migrateRepo ok_env ''org'' ''o'' ''p'' ''a'' ''G'' ''A'' False,
         migrateRepo ok_env ''org'' ''o'' ''p'' ''b'' ''G'' ''A'' False]"
    unfolding goroutines_def wl
    by (simp add: ab_form_def TrimSpace_def isSpace_def)
  have ea: "emitted (migrateRepo ok_env ''org'' ''o'' ''p'' ''a'' ''G'' ''A'' False)
      = [''Migrating repository: a'', ''Successfully migrated repository: a'']"
    by (simp add: emitted_def migrateRepo_def Let_def Run_def logMsg_def ok_env_def)
  have eb: "emitted (migrateRepo ok_env ''org'' ''o'' ''p'' ''b'' ''G'' ''A'' False)
      = [''Migrating repository: b'', ''Successfully migrated repository: b'']"
    by (simp add: emitted_def migrateRepo_def Let_def Run_def logMsg_def ok_env_def)
  have la: "label_after [0, 0, 1, 1, 1, 1, 0, 0] ab_form (\<lambda>i. ok_env)
     = [''Migrating repository: a'', ''Migrating repository: b'',
        ''Successfully migrated repository: b'', ''Successfully migrated repository: a'']"
    unfolding label_after_def g by (simp add: ea eb)
  have lb: "label_after [0, 0, 1, 1, 0, 1, 0, 1] ab_form (\<lambda>i. ok_env)
     = [''Migrating repository: a'', ''Migrating repository: b'',
        ''Successfully migrated repository: b'']"
    unfolding label_after_def g by (simp add: ea eb)
  show ?thesis unfolding la lb using wl by (simp add: terminal_main_def)
qed

text \<open>C1, amended, for new.go. The repositories are migrated one after the other, and for every
  filled-in form and every non-empty list of repositories the log of the run holds exactly one
  terminal record for each repository (the message of success, or one of the six error messages,
  naming it), in the order of the list; the same holds for the loop from any state.\<close>

theorem one_record_per_repository:
  "(TrimSpace (githubTokenEntry f) \<noteq> [] \<and> TrimSpace (azureTokenEntry f) \<noteq> [] \<and>
    TrimSpace (azureOrgEntry f) \<noteq> [] \<and> TrimSpace (azureProjectEntry f) \<noteq> [] \<and>
    getGitHubRepos e0 [] (TrimSpace (githubTokenEntry f)) \<noteq> []
    \<longrightarrow> list_all2 outcome_for (getGitHubRepos e0 [] (TrimSpace (githubTokenEntry f)))
          (filter terminal (new_logs s (migrate f e0 es s)))) \<and>
   list_all2 outcome_for repos
     (filter terminal (new_logs s (migrate_loop es githubToken azureToken azureOrg azureProject dontSave i repos s)))"
proof (intro conjI impI)
  assume "TrimSpace (githubTokenEntry f) \<noteq> [] \<and> TrimSpace (azureTokenEntry f) \<noteq> [] \<and>
    TrimSpace (azureOrgEntry f) \<noteq> [] \<and> TrimSpace (azureProjectEntry f) \<noteq> [] \<and>
    getGitHubRepos e0 [] (TrimSpace (githubTokenEntry f)) \<noteq> []"
  then show "list_all2 outcome_for (getGitHubRepos e0 [] (TrimSpace (githubTokenEntry f)))
          (filter terminal (new_logs s (migrate f e0 es s)))"
    using migrate_logs by blast
next
  obtain ms where "logs (migrate_loop es githubToken azureToken azureOrg azureProject dontSave i repos s) = logs s @ ms"
      "list_all2 outcome_for repos (filter terminal ms)"
    using loop_logs by blast
  then show "list_all2 outcome_for repos
     (filter terminal (new_logs s (migrate_loop es githubToken azureToken azureOrg azureProject dontSave i repos s)))"
    by (simp add: new_logs_def)
qed

theorem one_record_per_repository_witness:
  "TrimSpace (githubTokenEntry ok_form) \<noteq> [] \<and> TrimSpace (azureTokenEntry ok_form) \<noteq> [] \<and>
   TrimSpace (azureOrgEntry ok_form) \<noteq> [] \<and> TrimSpace (azureProjectEntry ok_form) \<noteq> [] \<and>
   getGitHubRepos ok_env [] (TrimSpace (githubTokenEntry ok_form)) = [''org/a'', ''org/b''] \<and>
   list_all2 outcome_for [''org/a'', ''org/b'']
     (filter terminal (new_logs start (migrate ok_form ok_env (\<lambda>i. ok_env) start)))"
proof -
  have h: "TrimSpace (githubTokenEntry ok_form) \<noteq> [] \<and> TrimSpace (azureTokenEntry ok_form) \<noteq> [] \<and>
      TrimSpace (azureOrgEntry ok_form) \<noteq> [] \<and> TrimSpace (azureProjectEntry ok_form) \<noteq> []"
    by (simp add: ok_form_def TrimSpace_def isSpace_def)
  have r: "getGitHubRepos ok_env [] (TrimSpace (githubTokenEntry ok_form)) = [''org/a'', ''org/b'']"
    by (simp add: getGitHubRepos_def ok_env_def)
  show ?thesis
    using one_record_per_repository [where f = ok_form and ?e0.0 = ok_env and s = start
        and es = "\<lambda>i. ok_env"] h r
    by simp
qed

subsection \<open>C3: provisioning a repository that exists\<close>

text \<open>C3, as stated, fails: when the destination reports that the name is taken (status 409),
  \<open>createAzureRepo\<close> returns the error \<open>Azure API error: 409 Conflict\<close>, not a push URL.\<close>

theorem already_exists_is_an_error:
  "createAzureRepo conflict_env ''org/a'' ''https://dev.azure.com/o'' ''p'' ''T''
     = Inl ''Azure API error: 409 Conflict''"
  by (simp add: createAzureRepo_def conflict_env_def)

text \<open>C3, amended. When the request can be built and the destination answers it, every answer
  whose status is not 201 Created, "already exists" among them, makes \<open>createAzureRepo\<close> return
  the error \<open>Azure API error: \<close> followed by the status text of the answer. A push URL is
  returned only when the request could be built and was answered with status 201, and it is then
  the answer's \<open>remoteUrl\<close> with the token put in front of the first \<open>dev.azure.com\<close>.\<close>

theorem createAzureRepo_needs_201:
  "(NewRequest e ''POST'' (createRepoURL org project) = None \<and>
    Do e (createRepoRequest repoName org project token) = Inr resp \<and> StatusCode resp \<noteq> 201
      \<longrightarrow> createAzureRepo e repoName org project token
            = Inl (''Azure API error: '' @ Status resp)) \<and>
   (createAzureRepo e repoName org project token = Inr u
      \<longrightarrow> NewRequest e ''POST'' (createRepoURL org project) = None \<and>
          (\<exists>resp. Do e (createRepoRequest repoName org project token) = Inr resp \<and>
             StatusCode resp = 201 \<and>
             u = Replace1 (Unmarshal_remoteUrl e (Body resp)) ''dev.azure.com''
                   (token @ ''@dev.azure.com'')))"
  by (auto simp: createAzureRepo_def split: option.splits sum.splits if_splits)

theorem createAzureRepo_needs_201_witness:
  "NewRequest conflict_env ''POST'' (createRepoURL ''https://dev.azure.com/o'' ''p'') = None \<and>
   Do conflict_env (createRepoRequest ''org/a'' ''https://dev.azure.com/o'' ''p'' ''T'')
     = Inr \<lparr>StatusCode = 409, Status = ''409 Conflict'', Body = []\<rparr> \<and>
   StatusCode \<lparr>StatusCode = 409, Status = ''409 Conflict'', Body = []\<rparr> \<noteq> 201 \<and>
   createAzureRepo conflict_env ''org/a'' ''https://dev.azure.com/o'' ''p'' ''T''
     = Inl (''Azure API error: '' @ Status \<lparr>StatusCode = 409, Status = ''409 Conflict'', Body = []\<rparr>) \<and>
   createAzureRepo ok_env ''org/a'' ''https://dev.azure.com/o'' ''p'' ''AZ''
     = Inr ''https://AZ@dev.azure.com/o/p/_git/a'' \<and>
   (\<exists>resp. Do ok_env (createRepoRequest ''org/a'' ''https://dev.azure.com/o'' ''p'' ''AZ'') = Inr resp \<and>
      StatusCode resp = 201 \<and>
      ''https://AZ@dev.azure.com/o/p/_git/a''
        = Replace1 (Unmarshal_remoteUrl ok_env (Body resp)) ''dev.azure.com'' (''AZ'' @ ''@dev.azure.com''))"
proof -
  have n: "NewRequest conflict_env ''POST'' (createRepoURL ''https://dev.azure.com/o'' ''p'') = None"
    by (simp add: conflict_env_def)
  have c: "Do conflict_env (createRepoRequest ''org/a'' ''https://dev.azure.com/o'' ''p'' ''T'')
     = Inr \<lparr>StatusCode = 409, Status = ''409 Conflict'', Body = []\<rparr>"
    by (simp add: conflict_env_def)
  have k: "createAzureRepo ok_env ''org/a'' ''https://dev.azure.com/o'' ''p'' ''AZ''
     = Inr ''https://AZ@dev.azure.com/o/p/_git/a''"
    by (simp add: createAzureRepo_def createRepoRequest_def ok_env_def)
  have "createAzureRepo conflict_env ''org/a'' ''https://dev.azure.com/o'' ''p'' ''T''
     = Inl (''Azure API error: '' @ Status \<lparr>StatusCode = 409, Status = ''409 Conflict'', Body = []\<rparr>)"
    using createAzureRepo_needs_201 [of conflict_env "''https://dev.azure.com/o''" "''p''" "''org/a''"
        "''T''" "\<lparr>StatusCode = 409, Status = ''409 Conflict'', Body = []\<rparr>"] n c
    by simp
  moreover have "\<exists>resp. Do ok_env (createRepoRequest ''org/a'' ''https://dev.azure.com/o'' ''p'' ''AZ'') = Inr resp \<and>
      StatusCode resp = 201 \<and>
      ''https://AZ@dev.azure.com/o/p/_git/a''
        = Replace1 (Unmarshal_remoteUrl ok_env (Body resp)) ''dev.azure.com'' (''AZ'' @ ''@dev.azure.com'')"
    using createAzureRepo_needs_201 [of ok_env "''https://dev.azure.com/o''" "''p''" "''org/a''"
        "''AZ''" _ "''https://AZ@dev.azure.com/o/p/_git/a''"] k
    by blast
  ultimately show ?thesis using n c k by simp
qed

subsection \<open>C5: the commands of a transfer\<close>

text \<open>C5, as stated, fails. When every step succeeds, new.go clones with \<open>git clone --bare\<close>,
  which leaves out the refs a mirror clone would copy besides branches and tags, and main.go,
  which does clone with \<open>--mirror\<close>, pushes once with \<open>push --mirror\<close> and never pushes
  branches and tags one after the other. Neither run is a mirror clone followed by the
  registration of the remote, a push of all branches and a push of all tags.\<close>

theorem transfer_is_not_mirror_branches_tags:
  "execs (calls (migrate_one ok_env ''GH'' ''AZ'' ''https://dev.azure.com/o'' ''p'' True ''org/a'' start))
     = [[''git'', ''clone'', ''--bare'', ''https://GH@github.com/org/a.git'', ''/tmp/org_a042''],
        [''git'', ''-C'', ''/tmp/org_a042'', ''remote'', ''add'', ''azure'',
         ''https://AZ@dev.azure.com/o/p/_git/a''],
        [''git'', ''-C'', ''/tmp/org_a042'', ''push'', ''azure'', ''--all''],
        [''git'', ''-C'', ''/tmp/org_a042'', ''push'', ''azure'', ''--tags'']] \<and>
   \<not> spec_transfer
       (execs (calls (migrate_one ok_env ''GH'' ''AZ'' ''https://dev.azure.com/o'' ''p'' True ''org/a'' start))) \<and>
   execs (calls (migrateRepo ok_env ''org'' ''o'' ''p'' ''a'' ''G'' ''A'' False start))
     = [[''git'', ''clone'', ''--mirror'', ''https://G@github.com/org/a.git''],
        [''git'', ''-C'', ''a.git'', ''remote'', ''add'', ''azure-devops'',
         ''https://A@dev.azure.com/o/p/_git/a''],
        [''git'', ''-C'', ''a.git'', ''push'', ''--mirror'', ''azure-devops'']] \<and>
   \<not> spec_transfer (execs (calls (migrateRepo ok_env ''org'' ''o'' ''p'' ''a'' ''G'' ''A'' False start)))"
proof -
  have new: "execs (calls (migrate_one ok_env ''GH'' ''AZ'' ''https://dev.azure.com/o'' ''p'' True ''org/a'' start))
     = [[''git'', ''clone'', ''--bare'', ''https://GH@github.com/org/a.git'', ''/tmp/org_a042''],
        [''git'', ''-C'', ''/tmp/org_a042'', ''remote'', ''add'', ''azure'',
         ''https://AZ@dev.azure.com/o/p/_git/a''],
        [''git'', ''-C'', ''/tmp/org_a042'', ''push'', ''azure'', ''--all''],
        [''git'', ''-C'', ''/tmp/org_a042'', ''push'', ''azure'', ''--tags'']]"
    by (simp add: migrate_one_def createAzureRepo_def createRepoRequest_def ok_env_def
        ioutil_TempDir_def exec_def keep_or_remove_def os_RemoveAll_def appendLog_def
        ReplaceAll_slash_def start_def cloneCmd_def remoteAddCmd_def pushAllCmd_def
        pushTagsCmd_def githubRepoURL_def)
  have old: "execs (calls (migrateRepo ok_env ''org'' ''o'' ''p'' ''a'' ''G'' ''A'' False start))
     = [[''git'', ''clone'', ''--mirror'', ''https://G@github.com/org/a.git''],
        [''git'', ''-C'', ''a.git'', ''remote'', ''add'', ''azure-devops'',
         ''https://A@dev.azure.com/o/p/_git/a''],
        [''git'', ''-C'', ''a.git'', ''push'', ''--mirror'', ''azure-devops'']]"
    by (simp add: migrateRepo_def Let_def Run_def logMsg_def ok_env_def start_def
        mirrorCloneCmd_def remoteAddAdoCmd_def pushMirrorCmd_def dirName_def)
  show ?thesis
    unfolding new old by (simp add: is_mirror_clone_def)
qed

text \<open>C5, amended. When a turn of new.go has got the push URL \<open>url\<close> from \<open>createAzureRepo\<close>
  and the directory \<open>d\<close> from \<open>ioutil.TempDir\<close>, the commands it runs are, in this order and each
  only after the one before returned no error: \<open>git clone --bare\<close> of the source into \<open>d\<close>,
  \<open>remote add azure url\<close> in \<open>d\<close>, \<open>push azure --all\<close> in \<open>d\<close> and \<open>push azure --tags\<close> in \<open>d\<close>;
  a turn that gets no URL or no directory runs no command. \<open>migrateRepo\<close> of main.go runs, in
  this order and each only after the one before returned no error: \<open>git clone --mirror\<close>, the
  registration of the remote \<open>azure-devops\<close>, and one \<open>push --mirror\<close>.\<close>

theorem transfer_commands_in_order:
  "(createAzureRepo e repo azureOrg azureProject azureToken = Inr url \<and>
    TempDir e (ReplaceAll_slash repo) = Inr d
    \<longrightarrow> execs (new_calls s (migrate_one e githubToken azureToken azureOrg azureProject dontSave repo s))
        = gated e
            [[''git'', ''clone'', ''--bare'', githubRepoURL githubToken repo, d],
             [''git'', ''-C'', d, ''remote'', ''add'', ''azure'', url],
             [''git'', ''-C'', d, ''push'', ''azure'', ''--all''],
             [''git'', ''-C'', d, ''push'', ''azure'', ''--tags'']]) \<and>
   (createAzureRepo e repo azureOrg azureProject azureToken = Inl err \<or>
    createAzureRepo e repo azureOrg azureProject azureToken = Inr url \<and>
      TempDir e (ReplaceAll_slash repo) = Inl err
    \<longrightarrow> execs (new_calls s (migrate_one e githubToken azureToken azureOrg azureProject dontSave repo s))
        = []) \<and>
   execs (new_calls s' (migrateRepo e' gitHubOrg adoOrg adoProject repoName gitPat adoPat deleteAfter s'))
     = gated e'
         [[''git'', ''clone'', ''--mirror'',
           ''https://'' @ gitPat @ ''@github.com/'' @ gitHubOrg @ ''/'' @ repoName @ ''.git''],
          [''git'', ''-C'', repoName @ ''.git'', ''remote'', ''add'', ''azure-devops'',
           ''https://'' @ adoPat @ ''@dev.azure.com/'' @ adoOrg @ ''/'' @ adoProject @ ''/_git/'' @ repoName],
          [''git'', ''-C'', repoName @ ''.git'', ''push'', ''--mirror'', ''azure-devops'']]"
  using turn_gated [of e repo azureOrg azureProject azureToken url d s githubToken dontSave]
    turn_no_commands [of e repo azureOrg azureProject azureToken err url s githubToken dontSave]
    migrateRepo_gated [of s' e' gitHubOrg adoOrg adoProject repoName gitPat adoPat deleteAfter]
  unfolding cloneCmd_def remoteAddCmd_def pushAllCmd_def pushTagsCmd_def
    mirrorCloneCmd_def remoteAddAdoCmd_def pushMirrorCmd_def dirName_def
  by blast

theorem transfer_commands_in_order_witness:
  "createAzureRepo push_fail_env ''org/a'' ''https://dev.azure.com/o'' ''p'' ''AZ''
     = Inr ''https://AZ@dev.azure.com/o/p/_git/a'' \<and>
   TempDir push_fail_env (ReplaceAll_slash ''org/a'') = Inr ''/tmp/org_a042'' \<and>
   execs (new_calls start (migrate_one push_fail_env ''GH'' ''AZ'' ''https://dev.azure.com/o'' ''p'' True ''org/a'' start))
     = [[''git'', ''clone'', ''--bare'', ''https://GH@github.com/org/a.git'', ''/tmp/org_a042''],
        [''git'', ''-C'', ''/tmp/org_a042'', ''remote'', ''add'', ''azure'',
         ''https://AZ@dev.azure.com/o/p/_git/a''],
        [''git'', ''-C'', ''/tmp/org_a042'', ''push'', ''azure'', ''--all'']] \<and>
   createAzureRepo conflict_env ''org/a'' ''https://dev.azure.com/o'' ''p'' ''AZ''
     = Inl ''Azure API error: 409 Conflict'' \<and>
   execs (new_calls start (migrate_one conflict_env ''GH'' ''AZ'' ''https://dev.azure.com/o'' ''p'' True ''org/a'' start))
     = [] \<and>
   execs (new_calls start (migrateRepo ok_env ''org'' ''o'' ''p'' ''a'' ''G'' ''A'' False start))
     = [[''git'', ''clone'', ''--mirror'', ''https://G@github.com/org/a.git''],
        [''git'', ''-C'', ''a.git'', ''remote'', ''add'', ''azure-devops'',
         ''https://A@dev.azure.com/o/p/_git/a''],
        [''git'', ''-C'', ''a.git'', ''push'', ''--mirror'', ''azure-devops'']]"
proof -
  have h1: "createAzureRepo push_fail_env ''org/a'' ''https://dev.azure.com/o'' ''p'' ''AZ''
     = Inr ''https://AZ@dev.azure.com/o/p/_git/a''"
    by (simp add: createAzureRepo_def createRepoRequest_def push_fail_env_def ok_env_def)
  have h2: "TempDir push_fail_env (ReplaceAll_slash ''org/a'') = Inr ''/tmp/org_a042''"
    by (simp add: push_fail_env_def ok_env_def ReplaceAll_slash_def)
  have h3: "createAzureRepo conflict_env ''org/a'' ''https://dev.azure.com/o'' ''p'' ''AZ''
     = Inl ''Azure API error: 409 Conflict''"
    by (simp add: createAzureRepo_def conflict_env_def)
  have a: "execs (new_calls start (migrate_one push_fail_env ''GH'' ''AZ'' ''https://dev.azure.com/o'' ''p'' True ''org/a'' start))
     = [[''git'', ''clone'', ''--bare'', ''https://GH@github.com/org/a.git'', ''/tmp/org_a042''],
        [''git'', ''-C'', ''/tmp/org_a042'', ''remote'', ''add'', ''azure'',
         ''https://AZ@dev.azure.com/o/p/_git/a''],
        [''git'', ''-C'', ''/tmp/org_a042'', ''push'', ''azure'', ''--all'']]"
    using transfer_commands_in_order [of push_fail_env "''org/a''" "''https://dev.azure.com/o''"
        "''p''" "''AZ''" "''https://AZ@dev.azure.com/o/p/_git/a''" "''/tmp/org_a042''" start
        "''GH''" True] h1 h2
    by (simp add: push_fail_env_def ok_env_def githubRepoURL_def)
  have b: "execs (new_calls start (migrate_one conflict_env ''GH'' ''AZ'' ''https://dev.azure.com/o'' ''p'' True ''org/a'' start))
     = []"
    using transfer_commands_in_order [of conflict_env "''org/a''" "''https://dev.azure.com/o''"
        "''p''" "''AZ''" _ _ start "''GH''" True "''Azure API error: 409 Conflict''"] h3
    by simp
  have c: "execs (new_calls start (migrateRepo ok_env ''org'' ''o'' ''p'' ''a'' ''G'' ''A'' False start))
     = [[''git'', ''clone'', ''--mirror'', ''https://G@github.com/org/a.git''],
        [''git'', ''-C'', ''a.git'', ''remote'', ''add'', ''azure-devops'',
         ''https://A@dev.azure.com/o/p/_git/a''],
        [''git'', ''-C'', ''a.git'', ''push'', ''--mirror'', ''azure-devops'']]"
    using transfer_commands_in_order [where e' = ok_env and gitHubOrg = "''org''" and adoOrg = "''o''"
        and adoProject = "''p''" and repoName = "''a''" and gitPat = "''G''" and adoPat = "''A''"
        and deleteAfter = False and s' = start]
    by (simp add: ok_env_def)
  show ?thesis using h1 h2 h3 a b c by simp
qed

subsection \<open>C7: the number of attempts\<close>



subsection \<open>C9: the directories of concurrent tasks\<close>




end
